theory Spec2Isabelle
  imports Complex_Main "HOL-Library.Log_Nat"
begin

section \<open>Overview\<close>

text \<open>
  A model of the feed synchronization engine of Feedarr: the cache store
  (\<^verbatim>\<open>src/config/database.js\<close>), the feed materializer (\<^verbatim>\<open>rssGenerator.js\<close>), the client
  of the upstream API and the scheduler (\<^verbatim>\<open>src/api/services\<close>). Every function of the
  source is a function here, under its own name, that takes the state it works on
  and returns the state it leaves; a thrown value is a result of its own. What the
  program takes from outside (upstream's answers, the clock, the environment, the
  \<^verbatim>\<open>rss\<close> package, the locale) is a parameter, and the properties hold for all values
  of these parameters. SQLite and the file system are taken to be available: their
  own failures are not part of the model.
\<close>

section \<open>JavaScript values\<close>

text \<open>
  Payloads are what \<^verbatim>\<open>JSON.parse\<close> yields. Numbers are integers (identifiers,
  years, byte counts, lengths); the model is exact for magnitudes below \<open>2^53\<close>.
  A string is a list of HOL characters, which is enough for the ASCII texts the
  program itself inserts and replaces. An object is the list of its own properties
  in insertion order, with distinct keys. The result of reading a property is a
  \<open>json option\<close>, where \<open>None\<close> is JavaScript's \<^verbatim>\<open>undefined\<close>.
\<close>

datatype json =
    JNull
  | JBool bool
  | JNum int
  | JStr string
  | JArr "json list"
  | JObj "(string \<times> json) list"

type_synonym jsval = "json option"

text \<open>ToBoolean: what \<^verbatim>\<open>if (v)\<close>, \<^verbatim>\<open>!v\<close>, \<^verbatim>\<open>a || b\<close> and \<^verbatim>\<open>a && b\<close> test.\<close>

fun truthy :: "jsval \<Rightarrow> bool" where
  "truthy None = False"
| "truthy (Some JNull) = False"
| "truthy (Some (JBool b)) = b"
| "truthy (Some (JNum n)) = (n \<noteq> 0)"
| "truthy (Some (JStr s)) = (s \<noteq> [])"
| "truthy (Some (JArr xs)) = True"
| "truthy (Some (JObj fs)) = True"

text \<open>\<^verbatim>\<open>a || b\<close> where \<open>b\<close> is a value that is never \<^verbatim>\<open>undefined\<close>.\<close>

definition or_else :: "jsval \<Rightarrow> json \<Rightarrow> json" where
  "or_else a b = (case a of Some v \<Rightarrow> if truthy a then v else b | None \<Rightarrow> b)"

text \<open>
  \<^verbatim>\<open>parseInt(process.env.X) || d\<close>: the argument is the value of
  \<^verbatim>\<open>parseInt\<close> on the variable, \<open>None\<close> for \<^verbatim>\<open>NaN\<close> (unset or no leading digits).
  Both \<^verbatim>\<open>NaN\<close> and \<open>0\<close> are falsy and give the default.
\<close>

definition parseInt_or :: "int option \<Rightarrow> int \<Rightarrow> int" where
  "parseInt_or p d = (case p of None \<Rightarrow> d | Some n \<Rightarrow> if n = 0 then d else n)"

record env =
  RSS_CACHE_TTL :: "int option"
  FETCH_FREQUENCY :: "int option"
  PORT :: "string option"

text \<open>
  Reading a property of a value that is not \<^verbatim>\<open>null\<close>. Arrays and strings have
  \<^verbatim>\<open>length\<close>; an object has its own properties; none of the names read by this
  program is inherited from a prototype. Reading a property of \<^verbatim>\<open>null\<close> throws, so
  every caller tests for \<open>JNull\<close> before it reads.
\<close>

fun get :: "json \<Rightarrow> string \<Rightarrow> jsval" where
  "get (JObj fs) p = map_of fs p"
| "get (JArr xs) p = (if p = ''length'' then Some (JNum (int (length xs))) else None)"
| "get (JStr s) p = (if p = ''length'' then Some (JNum (int (length s))) else None)"
| "get (JNum n) p = None"
| "get (JBool b) p = None"
| "get JNull p = None"

text \<open>Optional chaining \<^verbatim>\<open>v?.p\<close>.\<close>

definition opt_get :: "jsval \<Rightarrow> string \<Rightarrow> jsval" where
  "opt_get v p = (case v of None \<Rightarrow> None | Some JNull \<Rightarrow> None | Some j \<Rightarrow> get j p)"

text \<open>\<^verbatim>\<open>Array.isArray\<close>, and the elements \<^verbatim>\<open>forEach\<close> visits.\<close>

fun isArray :: "json \<Rightarrow> bool" where
  "isArray (JArr xs) = True"
| "isArray j = False"

fun elements :: "json \<Rightarrow> json list" where
  "elements (JArr xs) = xs"
| "elements j = []"

subsection \<open>ToString\<close>

definition digit_char :: "nat \<Rightarrow> char" where
  "digit_char d = ''0123456789'' ! (d mod 10)"

function show_nat :: "nat \<Rightarrow> string" where
  "show_nat n = (if n < 10 then [digit_char n] else show_nat (n div 10) @ [digit_char (n mod 10)])"
  by pat_completeness auto
termination
  by (relation "measure (\<lambda>n. n)") auto

declare show_nat.simps [simp del]

definition show_int :: "int \<Rightarrow> string" where
  "show_int i = (if i < 0 then ''-'' @ show_nat (nat (- i)) else show_nat (nat i))"

text \<open>\<^verbatim>\<open>Array.prototype.join(sep)\<close> on the texts of the elements.\<close>

fun join_with :: "string \<Rightarrow> string list \<Rightarrow> string" where
  "join_with sep [] = []"
| "join_with sep [x] = x"
| "join_with sep (x # y # ys) = x @ sep @ join_with sep (y # ys)"

text \<open>
  What a template literal \<^verbatim>\<open>${v}\<close> inserts. An array is its elements joined by
  commas, \<^verbatim>\<open>null\<close> elements giving the empty text.
\<close>

fun toStr :: "json \<Rightarrow> string" where
  "toStr JNull = ''null''"
| "toStr (JBool b) = (if b then ''true'' else ''false'')"
| "toStr (JNum n) = show_int n"
| "toStr (JStr s) = s"
| "toStr (JArr xs) = join_with '','' (map (\<lambda>x. case x of JNull \<Rightarrow> [] | _ \<Rightarrow> toStr x) xs)"
| "toStr (JObj fs) = ''[object Object]''"

definition join_elems :: "string \<Rightarrow> json list \<Rightarrow> string" where
  "join_elems sep xs = join_with sep (map (\<lambda>x. case x of JNull \<Rightarrow> [] | _ \<Rightarrow> toStr x) xs)"

subsection \<open>Number.prototype.toFixed(1)\<close>

text \<open>
  The sign, then the integer \<open>n\<close> for which \<open>n / 10\<close> is closest to the magnitude (the
  larger one on a tie), written with at least two digits and a point before the last.
  This is the fixed notation, which JavaScript uses for magnitudes below \<open>10^21\<close>. The
  argument is the exact value of the number \<^verbatim>\<open>toFixed\<close> is called on.
\<close>

definition toFixed1 :: "rat \<Rightarrow> string" where
  "toFixed1 x =
     (let n = nat \<lfloor>\<bar>x\<bar> * 10 + 1 / 2\<rfloor>;
          m = show_nat n;
          m' = (if length m < 2 then ''0'' @ m else m)
      in (if x < 0 then ''-'' else []) @ butlast m' @ ''.'' @ [last m'])"

subsection \<open>Double-precision arithmetic\<close>

text \<open>
  A JavaScript number is an IEEE 754 double, and \<^verbatim>\<open>-\<close>, \<^verbatim>\<open>/\<close> and \<^verbatim>\<open>*\<close> give the exact
  result rounded to the nearest double, to the one with an even significand on a
  tie. A double other than zero is \<open>\<plusminus> m * 2^(e - 52)\<close> with an integer significand
  \<open>2^52 \<le> m < 2^53\<close>. Here \<open>exponent x\<close> is the \<open>e\<close> with \<open>2^e \<le> x < 2^(e + 1)\<close> for a
  positive \<open>x\<close>, and \<open>to_double x\<close> is the double nearest to \<open>x\<close>. The range of the
  exponent is not bounded here: \<open>to_double\<close> is the rounding of the program for
  magnitudes between \<open>2^-1022\<close> and \<open>2^1024\<close>, where a double is neither subnormal
  nor infinite.
\<close>

definition exponent :: "rat \<Rightarrow> int" where
  "exponent x = (case quotient_of x of (a, b) \<Rightarrow>
      (let d = bitlen a - bitlen b in if 2 powi d \<le> x then d else d - 1))"

definition round_half_even :: "rat \<Rightarrow> int" where
  "round_half_even y =
     (let f = \<lfloor>y\<rfloor>; r = y - of_int f
      in if r < 1 / 2 then f else if 1 / 2 < r then f + 1 else if even f then f else f + 1)"

definition to_double :: "rat \<Rightarrow> rat" where
  "to_double x =
     (if x = 0 then 0
      else (let u = 2 powi (exponent \<bar>x\<bar> - 52)
            in sgn x * of_int (round_half_even (\<bar>x\<bar> / u)) * u))"

subsection \<open>Failures\<close>

text \<open>
  A thrown value: a \<^verbatim>\<open>TypeError\<close>, tagged with the expression that could not be
  evaluated, or an \<^verbatim>\<open>Error\<close> with its \<^verbatim>\<open>message\<close> (that of a rejected request to
  upstream, or one the program makes).
\<close>

datatype failure = TypeError string | Error string

definition bind_e :: "failure + 'a \<Rightarrow> ('a \<Rightarrow> failure + 'b) \<Rightarrow> failure + 'b" where
  "bind_e m f = (case m of Inl e \<Rightarrow> Inl e | Inr x \<Rightarrow> f x)"

text \<open>\<^verbatim>\<open>forEach\<close> with a callback that can throw: the first throw ends the loop.\<close>

fun map_e :: "('a \<Rightarrow> failure + 'b) \<Rightarrow> 'a list \<Rightarrow> failure + 'b list" where
  "map_e f [] = Inr []"
| "map_e f (x # xs) = bind_e (f x) (\<lambda>y. bind_e (map_e f xs) (\<lambda>ys. Inr (y # ys)))"

section \<open>The cache store (src/config/database.js)\<close>

text \<open>
  The two SQLite tables, each keyed by its primary key \<^verbatim>\<open>feed_type\<close>. The
  \<^verbatim>\<open>data\<close> column holds \<^verbatim>\<open>JSON.stringify\<close> of the payload and is read back with
  \<^verbatim>\<open>JSON.parse\<close>; the row keeps the JSON value that text denotes. The datetime
  columns hold ISO-8601 texts written by \<^verbatim>\<open>toISOString\<close> and read by
  \<^verbatim>\<open>new Date(...).getTime()\<close>; the row keeps the millisecond value. Every method
  takes the database and returns its result together with the database it leaves.
  The store itself is taken to be available.
\<close>

record cache_row =
  data :: json
  created_at :: int
  updated_at :: int

record metadata_row =
  last_fetch :: int
  item_count :: json
  status :: string
  error_message :: "string option"
  meta_updated_at :: int

record database =
  feed_cache :: "string \<rightharpoonup> cache_row"
  feed_metadata :: "string \<rightharpoonup> metadata_row"

definition cacheTTL :: "env \<Rightarrow> int" where
  "cacheTTL e = parseInt_or (RSS_CACHE_TTL e) 600000"

definition getCachedFeedData :: "env \<Rightarrow> int \<Rightarrow> database \<Rightarrow> string \<Rightarrow> json \<times> database" where
  "getCachedFeedData e now db feedType =
     (case feed_cache db feedType of
        Some result \<Rightarrow>
          (let cacheAge = now - updated_at result
           in if cacheAge < cacheTTL e then (data result, db) else (JNull, db))
      | None \<Rightarrow> (JNull, db))"

text \<open>Insert, or on a conflict of the key merge \<^verbatim>\<open>data\<close> and \<^verbatim>\<open>updated_at\<close> only.\<close>

definition setCachedFeedData :: "int \<Rightarrow> database \<Rightarrow> string \<Rightarrow> json \<Rightarrow> database" where
  "setCachedFeedData now db feedType payload =
     (case feed_cache db feedType of
        None \<Rightarrow>
          db\<lparr>feed_cache := (feed_cache db)
                (feedType \<mapsto> \<lparr>data = payload, created_at = now, updated_at = now\<rparr>)\<rparr>
      | Some old \<Rightarrow>
          db\<lparr>feed_cache := (feed_cache db)
                (feedType \<mapsto> old\<lparr>data := payload, updated_at := now\<rparr>)\<rparr>)"

text \<open>\<^verbatim>\<open>clearCachedFeedData(feedType = null)\<close>: a truthy key deletes one row, else all.\<close>

definition clearCachedFeedData :: "database \<Rightarrow> string option \<Rightarrow> database" where
  "clearCachedFeedData db feedType =
     (case feedType of
        Some k \<Rightarrow> if k \<noteq> [] then db\<lparr>feed_cache := (feed_cache db)(k := None)\<rparr>
                  else db\<lparr>feed_cache := Map.empty\<rparr>
      | None \<Rightarrow> db\<lparr>feed_cache := Map.empty\<rparr>)"

text \<open>The object literal handed to \<^verbatim>\<open>setFeedMetadata\<close>; an omitted key is \<open>None\<close>.\<close>

record metadata =
  lastFetch :: "int option"
  itemCount :: jsval
  status_arg :: "string option"
  errorMessage :: "string option"

definition str_or :: "string option \<Rightarrow> 'a \<Rightarrow> (string \<Rightarrow> 'a) \<Rightarrow> 'a" where
  "str_or s d f = (case s of None \<Rightarrow> d | Some t \<Rightarrow> if t = [] then d else f t)"

definition setFeedMetadata :: "int \<Rightarrow> database \<Rightarrow> string \<Rightarrow> metadata \<Rightarrow> database" where
  "setFeedMetadata now db feedType md =
     db\<lparr>feed_metadata := (feed_metadata db)(feedType \<mapsto>
        \<lparr>last_fetch = (case lastFetch md of Some t \<Rightarrow> t | None \<Rightarrow> now),
         item_count = or_else (itemCount md) (JNum 0),
         status = str_or (status_arg md) ''success'' (\<lambda>s. s),
         error_message = str_or (errorMessage md) None Some,
         meta_updated_at = now\<rparr>)\<rparr>"

definition getFeedMetadata :: "database \<Rightarrow> string \<Rightarrow> metadata_row option" where
  "getFeedMetadata db feedType = feed_metadata db feedType"

section \<open>The feed materializer (src/api/services/rssGenerator.js)\<close>

text \<open>
  The object built by the \<^verbatim>\<open>rss\<close> package: the options given to its constructor
  and the items added with \<^verbatim>\<open>feed.item\<close>. A date handed to \<^verbatim>\<open>new Date\<close> is kept as
  its argument: a value of the payload, or the current instant.
\<close>

datatype date_arg = DateOf json | DateNow int

record feed_item =
  item_title :: json
  item_description :: string
  item_url :: string
  item_guid :: string
  item_date :: date_arg
  item_categories :: "json list"

record feed =
  title :: string
  description :: string
  feed_url :: string
  site_url :: string
  image_url :: "string option"
  author :: string
  managingEditor :: string
  webMaster :: string
  copyright :: int
  language :: string
  categories :: "string list"
  pubDate :: int
  ttl :: rat
  items :: "feed_item list"

text \<open>
  What the program takes from its runtime and its packages: the serializer of the
  \<^verbatim>\<open>rss\<close> package, the locale's date format, the calendar year of an instant, the
  date thirty days after an instant, the comparison \<^verbatim>\<open>s > 0\<close> on the number a
  text converts to, the text of the progress arithmetic when an operand is not a
  number or not an integer of magnitude \<open>2^53\<close> at most, and the engine's message
  for a \<^verbatim>\<open>TypeError\<close>. Every property below holds for all of them.
\<close>

record runtime =
  xml :: "feed \<Rightarrow> string"
  toLocaleDateString :: "json \<Rightarrow> string"
  getFullYear :: "int \<Rightarrow> int"
  end_date :: "int \<Rightarrow> string"
  string_positive :: "string \<Rightarrow> bool"
  coerced_progress :: "json \<Rightarrow> json \<Rightarrow> string"
  type_error_message :: "string \<Rightarrow> string"

text \<open>The feeds directory by file name, and the names given to \<^verbatim>\<open>fs.writeFile\<close> so far.\<close>

record filesystem =
  feeds :: "string \<rightharpoonup> string"
  writes :: "string list"

definition writeFile :: "filesystem \<Rightarrow> string \<Rightarrow> string \<Rightarrow> filesystem" where
  "writeFile fs name content = fs\<lparr>feeds := (feeds fs)(name \<mapsto> content), writes := writes fs @ [name]\<rparr>"

definition port :: "env \<Rightarrow> string" where
  "port e = str_or (PORT e) ''3000'' (\<lambda>s. s)"

definition createBaseFeed :: "runtime \<Rightarrow> env \<Rightarrow> int \<Rightarrow> string \<Rightarrow> string \<Rightarrow> string \<Rightarrow> feed" where
  "createBaseFeed rt e now title' description' feedUrl =
     \<lparr>title = title',
      description = description',
      feed_url = feedUrl,
      site_url = ''http://localhost:'' @ port e,
      image_url = None,
      author = ''Feedarr'',
      managingEditor = ''Feedarr'',
      webMaster = ''Feedarr'',
      copyright = getFullYear rt now,
      language = ''en'',
      categories = [''Movies'', ''Media''],
      pubDate = now,
      ttl = (case RSS_CACHE_TTL e of
               None \<Rightarrow> 10
             | Some n \<Rightarrow> if n = 0 then 10 else of_int n / 1000 / 60),
      items = []\<rparr>"

subsection \<open>Helpers of the description builders\<close>

text \<open>\<^verbatim>\<open>text.replace(/c/g, r)\<close> for a single character \<open>c\<close>.\<close>

definition replace_all :: "char \<Rightarrow> string \<Rightarrow> string \<Rightarrow> string" where
  "replace_all c r s = concat (map (\<lambda>x. if x = c then r else [x]) s)"

definition escapeHtml :: "jsval \<Rightarrow> failure + string" where
  "escapeHtml text =
     (if \<not> truthy text then Inr []
      else case text of
             Some (JStr s) \<Rightarrow>
               Inr (replace_all (CHR 0x27) ''&#39;''
                   (replace_all (CHR 0x22) ''&quot;''
                   (replace_all CHR ''>'' ''&gt;''
                   (replace_all CHR ''<'' ''&lt;''
                   (replace_all CHR ''&'' ''&amp;'' s)))))
           | _ \<Rightarrow> Inl (TypeError ''text.replace''))"

text \<open>The template \<^verbatim>\<open><p><strong>Label:</strong> text</p>\<close>.\<close>

definition labelled :: "string \<Rightarrow> string \<Rightarrow> string" where
  "labelled label text = ''<p><strong>'' @ label @ '':</strong> '' @ text @ ''</p>''"

definition part_if :: "bool \<Rightarrow> string \<Rightarrow> string list" where
  "part_if c p = (if c then [p] else [])"

text \<open>\<^verbatim>\<open>parts.join('\n') || fallback\<close>.\<close>

definition join_or :: "string list \<Rightarrow> string \<Rightarrow> string" where
  "join_or parts fallback =
     (let d = join_with [CHR 0x0A] parts in if d = [] then fallback else d)"

definition text_of :: "jsval \<Rightarrow> string" where
  "text_of v = (case v of None \<Rightarrow> ''undefined'' | Some j \<Rightarrow> toStr j)"

text \<open>\<^verbatim>\<open>v > 0\<close>: numbers compare, \<^verbatim>\<open>undefined\<close> is \<^verbatim>\<open>NaN\<close>, \<^verbatim>\<open>null\<close> is \<open>0\<close>,
  \<^verbatim>\<open>true\<close> is \<open>1\<close>, anything else converts through its text.\<close>

fun gt_zero :: "runtime \<Rightarrow> jsval \<Rightarrow> bool" where
  "gt_zero rt None = False"
| "gt_zero rt (Some JNull) = False"
| "gt_zero rt (Some (JBool b)) = b"
| "gt_zero rt (Some (JNum n)) = (0 < n)"
| "gt_zero rt (Some j) = string_positive rt (toStr j)"

text \<open>\<^verbatim>\<open>v && v.length > 0\<close>.\<close>

definition has_elements :: "runtime \<Rightarrow> jsval \<Rightarrow> bool" where
  "has_elements rt v = (truthy v \<and> gt_zero rt (opt_get v ''length''))"

text \<open>\<^verbatim>\<open>v.join(sep)\<close>: only an array has the method.\<close>

definition join_method :: "string \<Rightarrow> string \<Rightarrow> jsval \<Rightarrow> failure + string" where
  "join_method expr sep v =
     (case v of Some (JArr xs) \<Rightarrow> Inr (join_elems sep xs) | _ \<Rightarrow> Inl (TypeError expr))"

text \<open>\<^verbatim>\<open>...v.slice(0, 3)\<close>: an array gives its first three elements, a string its
  first three characters, nothing else has the method.\<close>

definition spread_slice3 :: "string \<Rightarrow> jsval \<Rightarrow> failure + json list" where
  "spread_slice3 expr v =
     (case v of
        Some (JArr xs) \<Rightarrow> Inr (take 3 xs)
      | Some (JStr s) \<Rightarrow> Inr (map (\<lambda>c. JStr [c]) (take 3 s))
      | _ \<Rightarrow> Inl (TypeError expr))"

fun first_truthy :: "jsval list \<Rightarrow> jsval" where
  "first_truthy [] = None"
| "first_truthy (v # vs) = (if truthy v then v else first_truthy vs)"

text \<open>\<^verbatim>\<open>new Date(v || new Date())\<close>.\<close>

definition new_Date :: "jsval \<Rightarrow> int \<Rightarrow> date_arg" where
  "new_Date v now = (case v of Some j \<Rightarrow> if truthy v then DateOf j else DateNow now | None \<Rightarrow> DateNow now)"

definition date_text :: "runtime \<Rightarrow> jsval \<Rightarrow> string" where
  "date_text rt v = (case v of Some j \<Rightarrow> toLocaleDateString rt j | None \<Rightarrow> ''Invalid Date'')"

definition imdb_url :: "jsval \<Rightarrow> string" where
  "imdb_url imdbId = (if truthy imdbId then ''https://www.imdb.com/title/'' @ text_of imdbId else ''#'')"

text \<open>\<^verbatim>\<open>[a, b].filter(Boolean)\<close>.\<close>

definition filter_Boolean :: "json list \<Rightarrow> json list" where
  "filter_Boolean xs = filter (\<lambda>x. truthy (Some x)) xs"

text \<open>
  \<^verbatim>\<open>(size - sizeleft) / size * 100\<close> on two numbers: the difference, the quotient and
  the product are each rounded to a double.
\<close>

definition progress_double :: "int \<Rightarrow> int \<Rightarrow> rat" where
  "progress_double s l =
     to_double (to_double (to_double (of_int s - of_int l) / of_int s) * 100)"

text \<open>
  \<^verbatim>\<open>((size - sizeleft) / size * 100).toFixed(1)\<close> under the guard that both operands
  are truthy. It is computed here when both are integers of magnitude \<open>2^53\<close> at
  most and \<^verbatim>\<open>size\<close> is not zero: then the operands are doubles, no result leaves
  the range in which \<open>to_double\<close> is the rounding of the program, and the product
  stays below \<open>10^21\<close>. For other operands the text is the runtime's.
\<close>

definition progress_text :: "runtime \<Rightarrow> json \<Rightarrow> json \<Rightarrow> string" where
  "progress_text rt size' sizeleft =
     (case (size', sizeleft) of
        (JNum s, JNum l) \<Rightarrow>
          if s \<noteq> 0 \<and> \<bar>s\<bar> \<le> 2 ^ 53 \<and> \<bar>l\<bar> \<le> 2 ^ 53
          then toFixed1 (progress_double s l)
          else coerced_progress rt size' sizeleft
      | _ \<Rightarrow> coerced_progress rt size' sizeleft)"

subsection \<open>Calendar\<close>

definition buildMovieDescription :: "runtime \<Rightarrow> json \<Rightarrow> failure + string" where
  "buildMovieDescription rt movie =
     (if movie = JNull then Inl (TypeError ''movie.overview'')
      else
        bind_e (if truthy (get movie ''overview'')
                then bind_e (escapeHtml (get movie ''overview''))
                       (\<lambda>t. Inr [labelled ''Overview'' t])
                else Inr [])
        (\<lambda>overview.
        bind_e (if has_elements rt (get movie ''genres'')
                then bind_e (join_method ''movie.genres.join'' '', '' (get movie ''genres''))
                       (\<lambda>t. Inr [labelled ''Genres'' t])
                else Inr [])
        (\<lambda>genres.
        Inr (join_or
          (overview
           @ part_if (truthy (get movie ''year''))
               (labelled ''Year'' (text_of (get movie ''year'')))
           @ part_if (truthy (get movie ''status''))
               (labelled ''Status'' (text_of (get movie ''status'')))
           @ part_if (truthy (get movie ''inCinemas''))
               (labelled ''In Cinemas'' (date_text rt (get movie ''inCinemas'')))
           @ part_if (truthy (get movie ''digitalRelease''))
               (labelled ''Digital Release'' (date_text rt (get movie ''digitalRelease'')))
           @ part_if (truthy (get movie ''physicalRelease''))
               (labelled ''Physical Release'' (date_text rt (get movie ''physicalRelease'')))
           @ genres)
          ''No additional information available.''))))"

definition getMovieCategories :: "runtime \<Rightarrow> json \<Rightarrow> failure + json list" where
  "getMovieCategories rt movie =
     (if movie = JNull then Inl (TypeError ''movie.status'')
      else
        bind_e (if has_elements rt (get movie ''genres'')
                then spread_slice3 ''movie.genres.slice'' (get movie ''genres'')
                else Inr [])
        (\<lambda>genres.
        Inr ([JStr ''Movie'']
             @ (if truthy (get movie ''status'') then [or_else (get movie ''status'') JNull] else [])
             @ genres)))"

text \<open>The callback of \<^verbatim>\<open>calendarData.forEach\<close>: the item it adds, or what it throws.\<close>

definition calendar_item :: "runtime \<Rightarrow> int \<Rightarrow> json \<Rightarrow> failure + feed_item" where
  "calendar_item rt now movie =
     (if movie = JNull then Inl (TypeError ''movie.digitalRelease'')
      else
        bind_e (buildMovieDescription rt movie) (\<lambda>description'.
        bind_e (getMovieCategories rt movie) (\<lambda>categories'.
        Inr \<lparr>item_title = or_else (get movie ''title'') (JStr ''Unknown Movie''),
             item_description = description',
             item_url = imdb_url (get movie ''imdbId''),
             item_guid = ''calendar-'' @ toStr (or_else (get movie ''id'') (JNum now)),
             item_date = new_Date (first_truthy [get movie ''digitalRelease'',
                            get movie ''physicalRelease'', get movie ''inCinemas'']) now,
             item_categories = categories'\<rparr>)))"

text \<open>
  The items of a feed: \<^verbatim>\<open>if (data && Array.isArray(data)) data.forEach(...)\<close>.
\<close>

definition feed_items :: "(json \<Rightarrow> failure + feed_item) \<Rightarrow> json \<Rightarrow> failure + feed_item list" where
  "feed_items callback payload =
     (if truthy (Some payload) \<and> isArray payload then map_e callback (elements payload) else Inr [])"

text \<open>Serialize the feed, write it under the kind's file name, return the text.\<close>

definition write_feed ::
  "runtime \<Rightarrow> filesystem \<Rightarrow> string \<Rightarrow> feed \<Rightarrow> failure + feed_item list
     \<Rightarrow> filesystem \<times> (failure + string)" where
  "write_feed rt fs name base its =
     (case its of
        Inl err \<Rightarrow> (fs, Inl err)
      | Inr is \<Rightarrow> (writeFile fs name (xml rt (base\<lparr>items := is\<rparr>)), Inr (xml rt (base\<lparr>items := is\<rparr>))))"

definition generateCalendarFeed ::
  "runtime \<Rightarrow> env \<Rightarrow> int \<Rightarrow> filesystem \<Rightarrow> json \<Rightarrow> filesystem \<times> (failure + string)" where
  "generateCalendarFeed rt e now fs calendarData =
     write_feed rt fs ''calendar.xml''
       (createBaseFeed rt e now ''Calendar Feed'' ''Upcoming movies from calendar''
          (''http://localhost:'' @ port e @ ''/rss/calendar''))
       (feed_items (calendar_item rt now) calendarData)"

subsection \<open>Notifications\<close>

definition buildNotificationDescription :: "runtime \<Rightarrow> json \<Rightarrow> failure + string" where
  "buildNotificationDescription rt notification =
     (if notification = JNull then Inl (TypeError ''notification.implementationName'')
      else
        bind_e (escapeHtml (Some (or_else (get notification ''implementationName'') (JStr ''Unknown''))))
        (\<lambda>implementation.
        bind_e (if truthy (get notification ''configContract'')
                then bind_e (escapeHtml (get notification ''configContract''))
                       (\<lambda>t. Inr [labelled ''Contract'' t])
                else Inr [])
        (\<lambda>contract.
        Inr (join_or
          ([labelled ''Implementation'' implementation]
           @ part_if (has_elements rt (get notification ''fields''))
               (labelled ''Configuration Fields''
                  (text_of (opt_get (get notification ''fields'') ''length'') @ '' fields configured''))
           @ contract)
          ''Notification configuration details.''))))"

definition notification_item :: "runtime \<Rightarrow> int \<Rightarrow> json \<Rightarrow> failure + feed_item" where
  "notification_item rt now notification =
     bind_e (buildNotificationDescription rt notification) (\<lambda>description'.
     Inr \<lparr>item_title = or_else (get notification ''name'') (JStr ''System Notification''),
          item_description = description',
          item_url = ''#'',
          item_guid = ''notification-'' @ toStr (or_else (get notification ''id'') (JNum now)),
          item_date = DateNow now,
          item_categories = filter_Boolean
            [JStr ''Notification'', or_else (get notification ''implementationName'') (JStr ''System'')]\<rparr>)"

definition generateNotificationFeed ::
  "runtime \<Rightarrow> env \<Rightarrow> int \<Rightarrow> filesystem \<Rightarrow> json \<Rightarrow> filesystem \<times> (failure + string)" where
  "generateNotificationFeed rt e now fs notificationData =
     write_feed rt fs ''notification.xml''
       (createBaseFeed rt e now ''Notifications Feed'' ''System notifications and alerts''
          (''http://localhost:'' @ port e @ ''/rss/notification''))
       (feed_items (notification_item rt now) notificationData)"

subsection \<open>Queue\<close>

text \<open>The list \<^verbatim>\<open>parts\<close> of \<^verbatim>\<open>buildQueueDescription\<close> before it is joined.\<close>

definition queue_parts :: "runtime \<Rightarrow> json \<Rightarrow> failure + string list" where
  "queue_parts rt item =
     (if item = JNull then Inl (TypeError ''item.movie'')
      else
        bind_e (if truthy (get (or_else (get item ''movie'') (JObj [])) ''overview'')
                then bind_e (escapeHtml (get (or_else (get item ''movie'') (JObj [])) ''overview''))
                       (\<lambda>t. Inr [labelled ''Movie Overview'' t])
                else Inr [])
        (\<lambda>overview.
        Inr ([labelled ''Status'' (toStr (or_else (get item ''status'') (JStr ''Unknown'')))]
             @ part_if (truthy (get item ''size'') \<and> truthy (get item ''sizeleft''))
                 (labelled ''Progress''
                    (progress_text rt (or_else (get item ''size'') JNull)
                       (or_else (get item ''sizeleft'') JNull) @ ''%''))
             @ part_if (truthy (get item ''quality''))
                 (labelled ''Quality''
                    (toStr (or_else (opt_get (opt_get (get item ''quality'') ''quality'') ''name'')
                       (JStr ''Unknown''))))
             @ part_if (truthy (get item ''protocol''))
                 (labelled ''Protocol'' (text_of (get item ''protocol'')))
             @ part_if (truthy (get item ''indexer''))
                 (labelled ''Indexer'' (text_of (get item ''indexer'')))
             @ overview)))"

definition buildQueueDescription :: "runtime \<Rightarrow> json \<Rightarrow> failure + string" where
  "buildQueueDescription rt item =
     bind_e (queue_parts rt item) (\<lambda>parts. Inr (join_or parts ''Queue item details.''))"

definition queue_item :: "runtime \<Rightarrow> int \<Rightarrow> json \<Rightarrow> failure + feed_item" where
  "queue_item rt now item =
     bind_e (buildQueueDescription rt item) (\<lambda>description'.
     Inr \<lparr>item_title = JStr
            (toStr (or_else (get (or_else (get item ''movie'') (JObj [])) ''title'') (JStr ''Unknown Movie''))
             @ '' - '' @ toStr (or_else (get item ''status'') (JStr ''Unknown Status''))),
          item_description = description',
          item_url = imdb_url (get (or_else (get item ''movie'') (JObj [])) ''imdbId''),
          item_guid = ''queue-'' @ toStr (or_else (get item ''id'') (JNum now)),
          item_date = new_Date (get item ''added'') now,
          item_categories = filter_Boolean
            [JStr ''Queue'', or_else (get item ''status'') (JStr ''Unknown'')]\<rparr>)"

definition generateQueueFeed ::
  "runtime \<Rightarrow> env \<Rightarrow> int \<Rightarrow> filesystem \<Rightarrow> json \<Rightarrow> filesystem \<times> (failure + string)" where
  "generateQueueFeed rt e now fs queueData =
     write_feed rt fs ''queue.xml''
       (createBaseFeed rt e now ''Queue Feed'' ''Download queue status and progress''
          (''http://localhost:'' @ port e @ ''/rss/queue''))
       (feed_items (queue_item rt now) queueData)"

definition readFeed :: "filesystem \<Rightarrow> string \<Rightarrow> string option" where
  "readFeed fs feedType = feeds fs (feedType @ ''.xml'')"

section \<open>The remote data source client and the scheduler (src/api/services)\<close>

text \<open>
  A request to upstream is its path and its query parameters. What upstream answers
  is not the program's to decide: \<open>upstream\<close> gives, for a request, the decoded
  body of a 2xx response, or the \<^verbatim>\<open>message\<close> of the error axios rejects with.
\<close>

record api_request =
  path :: string
  params :: "(string \<times> json) list"

type_synonym upstream = "api_request \<Rightarrow> string + json"

text \<open>A task of \<^verbatim>\<open>node-cron\<close>: its pattern, and whether it is started.\<close>

record cron_task =
  pattern :: string
  running :: bool

text \<open>
  The state the process works on: the database, the feeds directory, the requests
  issued to upstream so far, the scheduler's \<^verbatim>\<open>jobs\<close> map (job name to task, a
  task being its index in the registry of \<^verbatim>\<open>node-cron\<close>), its
  \<^verbatim>\<open>lastFetchTimes\<close> and \<^verbatim>\<open>fetchFrequency\<close>, and the registry of
  \<^verbatim>\<open>node-cron\<close>. One refresh reads the clock as a single instant \<open>now\<close>.
\<close>

record world =
  db :: database
  fs :: filesystem
  requests :: "api_request list"
  jobs :: "(string \<times> nat) list"
  lastFetchTimes :: "string \<rightharpoonup> int"
  fetchFrequency :: int
  cron_tasks :: "cron_task list"

definition new_world :: "env \<Rightarrow> world" where
  "new_world e =
     \<lparr>db = \<lparr>feed_cache = Map.empty, feed_metadata = Map.empty\<rparr>,
      fs = \<lparr>feeds = Map.empty, writes = []\<rparr>,
      requests = [],
      jobs = [],
      lastFetchTimes = Map.empty,
      fetchFrequency = parseInt_or (FETCH_FREQUENCY e) 300000,
      cron_tasks = []\<rparr>"

subsection \<open>ApiClient\<close>

definition client_get :: "upstream \<Rightarrow> world \<Rightarrow> api_request \<Rightarrow> world \<times> (failure + json)" where
  "client_get up w req =
     (w\<lparr>requests := requests w @ [req]\<rparr>,
      case up req of Inl msg \<Rightarrow> Inl (Error msg) | Inr body \<Rightarrow> Inr body)"

definition getCalendar :: "upstream \<Rightarrow> world \<Rightarrow> (string \<times> json) list \<Rightarrow> world \<times> (failure + json)" where
  "getCalendar up w ps = client_get up w \<lparr>path = ''/calendar'', params = ps\<rparr>"

definition getNotifications :: "upstream \<Rightarrow> world \<Rightarrow> world \<times> (failure + json)" where
  "getNotifications up w = client_get up w \<lparr>path = ''/notification'', params = []\<rparr>"

definition getQueue :: "upstream \<Rightarrow> world \<Rightarrow> (string \<times> json) list \<Rightarrow> world \<times> (failure + json)" where
  "getQueue up w ps = client_get up w \<lparr>path = ''/queue'', params = ps\<rparr>"

subsection \<open>The per-kind refreshes\<close>

text \<open>\<^verbatim>\<open>error.message\<close>.\<close>

definition message_of :: "runtime \<Rightarrow> failure \<Rightarrow> string" where
  "message_of rt err = (case err of TypeError x \<Rightarrow> type_error_message rt x | Error m \<Rightarrow> m)"

text \<open>The metadata written at the end of the \<^verbatim>\<open>try\<close> block and in the \<^verbatim>\<open>catch\<close> block.\<close>

definition success_metadata :: "int \<Rightarrow> jsval \<Rightarrow> metadata" where
  "success_metadata now count =
     \<lparr>lastFetch = Some now, itemCount = count,
      status_arg = Some ''success'', errorMessage = None\<rparr>"

definition error_metadata :: "runtime \<Rightarrow> int \<Rightarrow> failure \<Rightarrow> metadata" where
  "error_metadata rt now err =
     \<lparr>lastFetch = Some now, itemCount = Some (JNum 0),
      status_arg = Some ''error'', errorMessage = Some (message_of rt err)\<rparr>"

text \<open>
  The first step of a refresh: the cached payload when the cache read is truthy,
  else the answer of upstream, stored in the cache before it is returned.
\<close>

definition cached_or_fetched ::
  "env \<Rightarrow> int \<Rightarrow> string \<Rightarrow> (world \<Rightarrow> world \<times> (failure + json)) \<Rightarrow> world
     \<Rightarrow> world \<times> (failure + json)" where
  "cached_or_fetched e now feedType request w =
     (case getCachedFeedData e now (db w) feedType of
        (cachedData, db1) \<Rightarrow>
          if \<not> truthy (Some cachedData) then
            (case request (w\<lparr>db := db1\<rparr>) of
               (w2, Inl err) \<Rightarrow> (w2, Inl err)
             | (w2, Inr fetched) \<Rightarrow>
                 (w2\<lparr>db := setCachedFeedData now (db w2) feedType fetched\<rparr>, Inr fetched))
          else (w\<lparr>db := db1\<rparr>, Inr cachedData))"

text \<open>
  The rest of the \<^verbatim>\<open>try\<close> block: generate the feed from \<open>payload\<close>, note the time
  of the fetch, write the success metadata with the item count \<open>count\<close>.
\<close>

definition generate_and_record ::
  "int \<Rightarrow> string \<Rightarrow> (filesystem \<Rightarrow> json \<Rightarrow> filesystem \<times> (failure + string)) \<Rightarrow> json \<Rightarrow> jsval
     \<Rightarrow> world \<Rightarrow> world \<times> failure option" where
  "generate_and_record now feedType generate payload count w =
     (case generate (fs w) payload of
        (fs', Inl err) \<Rightarrow> (w\<lparr>fs := fs'\<rparr>, Some err)
      | (fs', Inr x) \<Rightarrow>
          (w\<lparr>fs := fs',
             lastFetchTimes := (lastFetchTimes w)(feedType \<mapsto> now),
             db := setFeedMetadata now (db w) feedType (success_metadata now count)\<rparr>, None))"

text \<open>The \<^verbatim>\<open>catch\<close> block.\<close>

definition catch_error :: "runtime \<Rightarrow> int \<Rightarrow> string \<Rightarrow> world \<times> failure option \<Rightarrow> world" where
  "catch_error rt now feedType r =
     (case r of
        (w, None) \<Rightarrow> w
      | (w, Some err) \<Rightarrow> w\<lparr>db := setFeedMetadata now (db w) feedType (error_metadata rt now err)\<rparr>)"

text \<open>The value of \<^verbatim>\<open>calendarData\<close> when the feed is generated, or what the fetch threw.\<close>

definition calendarData :: "runtime \<Rightarrow> env \<Rightarrow> int \<Rightarrow> upstream \<Rightarrow> world \<Rightarrow> world \<times> (failure + json)" where
  "calendarData rt e now up w =
     cached_or_fetched e now ''calendar''
       (\<lambda>w'. getCalendar up w' [(''end'', JStr (end_date rt now)), (''unmonitored'', JBool False)]) w"

text \<open>The \<^verbatim>\<open>try\<close> block: the state it reaches, and what it threw if it did.\<close>

definition calendar_try :: "runtime \<Rightarrow> env \<Rightarrow> int \<Rightarrow> upstream \<Rightarrow> world \<Rightarrow> world \<times> failure option" where
  "calendar_try rt e now up w =
     (case calendarData rt e now up w of
        (w1, Inl err) \<Rightarrow> (w1, Some err)
      | (w1, Inr payload) \<Rightarrow>
          generate_and_record now ''calendar'' (generateCalendarFeed rt e now) payload
            (Some (or_else (opt_get (Some payload) ''length'') (JNum 0))) w1)"

definition updateCalendarFeed :: "runtime \<Rightarrow> env \<Rightarrow> int \<Rightarrow> upstream \<Rightarrow> world \<Rightarrow> world" where
  "updateCalendarFeed rt e now up w = catch_error rt now ''calendar'' (calendar_try rt e now up w)"

definition notificationData :: "env \<Rightarrow> int \<Rightarrow> upstream \<Rightarrow> world \<Rightarrow> world \<times> (failure + json)" where
  "notificationData e now up w =
     cached_or_fetched e now ''notification'' (\<lambda>w'. getNotifications up w') w"

definition notification_try :: "runtime \<Rightarrow> env \<Rightarrow> int \<Rightarrow> upstream \<Rightarrow> world \<Rightarrow> world \<times> failure option" where
  "notification_try rt e now up w =
     (case notificationData e now up w of
        (w1, Inl err) \<Rightarrow> (w1, Some err)
      | (w1, Inr payload) \<Rightarrow>
          generate_and_record now ''notification'' (generateNotificationFeed rt e now) payload
            (Some (or_else (opt_get (Some payload) ''length'') (JNum 0))) w1)"

definition updateNotificationFeed :: "runtime \<Rightarrow> env \<Rightarrow> int \<Rightarrow> upstream \<Rightarrow> world \<Rightarrow> world" where
  "updateNotificationFeed rt e now up w =
     catch_error rt now ''notification'' (notification_try rt e now up w)"

definition queueData :: "env \<Rightarrow> int \<Rightarrow> upstream \<Rightarrow> world \<Rightarrow> world \<times> (failure + json)" where
  "queueData e now up w =
     cached_or_fetched e now ''queue''
       (\<lambda>w'. getQueue up w' [(''pageSize'', JNum 50), (''includeUnknownMovieItems'', JBool False)]) w"

text \<open>\<^verbatim>\<open>const items = queueData?.records || queueData || []\<close>.\<close>

definition queue_records :: "json \<Rightarrow> json" where
  "queue_records payload =
     or_else (opt_get (Some payload) ''records'') (or_else (Some payload) (JArr []))"

definition queue_try :: "runtime \<Rightarrow> env \<Rightarrow> int \<Rightarrow> upstream \<Rightarrow> world \<Rightarrow> world \<times> failure option" where
  "queue_try rt e now up w =
     (case queueData e now up w of
        (w1, Inl err) \<Rightarrow> (w1, Some err)
      | (w1, Inr payload) \<Rightarrow>
          generate_and_record now ''queue'' (generateQueueFeed rt e now) (queue_records payload)
            (get (queue_records payload) ''length'') w1)"

definition updateQueueFeed :: "runtime \<Rightarrow> env \<Rightarrow> int \<Rightarrow> upstream \<Rightarrow> world \<Rightarrow> world" where
  "updateQueueFeed rt e now up w = catch_error rt now ''queue'' (queue_try rt e now up w)"

subsection \<open>Cycles and control\<close>

text \<open>
  \<^verbatim>\<open>Promise.allSettled\<close> over the three refreshes. Each of them reads and writes
  only the rows and the file of its own kind, so their interleaving is represented
  by running them one after the other; none of them can reject, since each catches
  what its \<^verbatim>\<open>try\<close> block throws.
\<close>

definition fetchAllFeeds :: "runtime \<Rightarrow> env \<Rightarrow> int \<Rightarrow> upstream \<Rightarrow> world \<Rightarrow> world" where
  "fetchAllFeeds rt e now up w =
     updateQueueFeed rt e now up
       (updateNotificationFeed rt e now up
          (updateCalendarFeed rt e now up w))"

text \<open>\<^verbatim>\<open>Map.prototype.set\<close>: replace the value of a key in place, or append the key.\<close>

fun map_set :: "string \<Rightarrow> nat \<Rightarrow> (string \<times> nat) list \<Rightarrow> (string \<times> nat) list" where
  "map_set k v [] = [(k, v)]"
| "map_set k v (p # ps) = (if fst p = k then (k, v) # ps else p # map_set k v ps)"

definition cronPattern :: "int \<Rightarrow> string" where
  "cronPattern frequency = ''*/'' @ show_int (max 1 (frequency div 1000 div 60)) @ '' * * * *''"

text \<open>
  \<^verbatim>\<open>start()\<close>: schedule a task that is not yet started, put it in \<^verbatim>\<open>jobs\<close> under
  the name \<^verbatim>\<open>rss-fetcher\<close>, start it, and run one cycle. The source launches that cycle
  with \<^verbatim>\<open>this.fetchAllFeeds()\<close> and returns without waiting for it; the result here is
  the state once the launched cycle has settled, with no other call in between.
  The tasks and \<^verbatim>\<open>jobs\<close> of that state are those the source has when \<^verbatim>\<open>start()\<close>
  returns, since a cycle changes neither; the store, the files and the requests are
  those of the source only if the cycle has settled before the next call, and two
  cycles that overlap are not described.
\<close>

definition start :: "runtime \<Rightarrow> env \<Rightarrow> int \<Rightarrow> upstream \<Rightarrow> world \<Rightarrow> world" where
  "start rt e now up w =
     (let job = length (cron_tasks w);
          w1 = w\<lparr>cron_tasks := cron_tasks w @ [\<lparr>pattern = cronPattern (fetchFrequency w), running = False\<rparr>]\<rparr>;
          w2 = w1\<lparr>jobs := map_set ''rss-fetcher'' job (jobs w1)\<rparr>;
          w3 = w2\<lparr>cron_tasks := (cron_tasks w2)[job := (cron_tasks w2 ! job)\<lparr>running := True\<rparr>]\<rparr>
      in fetchAllFeeds rt e now up w3)"

text \<open>\<^verbatim>\<open>stop()\<close>: stop every task that is in \<^verbatim>\<open>jobs\<close>, then clear \<^verbatim>\<open>jobs\<close>.\<close>

definition stop_task :: "nat \<Rightarrow> cron_task list \<Rightarrow> cron_task list" where
  "stop_task job ts = (if job < length ts then ts[job := (ts ! job)\<lparr>running := False\<rparr>] else ts)"

definition stop :: "world \<Rightarrow> world" where
  "stop w = w\<lparr>cron_tasks := fold (\<lambda>(name, job). stop_task job) (jobs w) (cron_tasks w), jobs := []\<rparr>"

definition isRunning :: "world \<Rightarrow> bool" where
  "isRunning w = (0 < length (jobs w))"

definition activeJobs :: "world \<Rightarrow> string list" where
  "activeJobs w = map fst (jobs w)"

text \<open>The recurring jobs that are active: the started tasks of the registry.\<close>

definition active_tasks :: "world \<Rightarrow> cron_task list" where
  "active_tasks w = filter running (cron_tasks w)"

text \<open>
  \<^verbatim>\<open>manualUpdate(feedType = null)\<close>: a truthy kind runs its refresh, an unknown
  one throws; otherwise all three run.
\<close>

definition manualUpdate ::
  "runtime \<Rightarrow> env \<Rightarrow> int \<Rightarrow> upstream \<Rightarrow> string option \<Rightarrow> world \<Rightarrow> world \<times> failure option" where
  "manualUpdate rt e now up feedType w =
     str_or feedType (fetchAllFeeds rt e now up w, None)
       (\<lambda>k. if k = ''calendar'' then (updateCalendarFeed rt e now up w, None)
            else if k = ''notification'' then (updateNotificationFeed rt e now up w, None)
            else if k = ''queue'' then (updateQueueFeed rt e now up w, None)
            else (w, Some (Error (''Unknown feed type: '' @ k))))"

section \<open>Example inputs\<close>

definition example_env :: env where
  "example_env = \<lparr>RSS_CACHE_TTL = None, FETCH_FREQUENCY = None, PORT = None\<rparr>"

definition example_runtime :: runtime where
  "example_runtime =
     \<lparr>xml = (\<lambda>f. title f),
      toLocaleDateString = toStr,
      getFullYear = (\<lambda>t. 2026),
      end_date = (\<lambda>t. ''2026-12-02''),
      string_positive = (\<lambda>s. False),
      coerced_progress = (\<lambda>a b. ''NaN''),
      type_error_message = (\<lambda>x. x @ '' is not a function'')\<rparr>"

text \<open>A TTL of one second, and a cache with one row, written at instant 5000.\<close>

definition env_ttl_1000 :: env where
  "env_ttl_1000 = \<lparr>RSS_CACHE_TTL = Some 1000, FETCH_FREQUENCY = None, PORT = None\<rparr>"

definition store_one_row :: database where
  "store_one_row =
     \<lparr>feed_cache =
        [''calendar'' \<mapsto> \<lparr>data = JArr [JObj [(''id'', JNum 1)]], created_at = 1, updated_at = 5000\<rparr>],
      feed_metadata = Map.empty\<rparr>"

text \<open>Upstream answering every request with an empty list, and upstream failing every request.\<close>

definition upstream_empty :: upstream where
  "upstream_empty = (\<lambda>req. Inr (JArr []))"

definition upstream_down :: upstream where
  "upstream_down = (\<lambda>req. Inl ''Request failed with status code 500'')"

text \<open>Upstream failing the calendar requests only.\<close>

definition upstream_calendar_down :: upstream where
  "upstream_calendar_down =
     (\<lambda>req. if path req = ''/calendar'' then Inl ''Network Error'' else Inr (JArr []))"

text \<open>The queue record of the specification's example, and a finished download.\<close>

definition queue_item_downloading :: json where
  "queue_item_downloading =
     JObj [(''status'', JStr ''downloading''), (''size'', JNum 1073741824),
           (''sizeleft'', JNum 536870912), (''movie'', JObj [(''title'', JStr ''X'')])]"

definition queue_item_completed :: json where
  "queue_item_completed =
     JObj [(''id'', JNum 2), (''status'', JStr ''completed''), (''size'', JNum 2147483648),
           (''sizeleft'', JNum 0)]"

text \<open>
  A fresh scheduler over a cache that holds the same payload for each kind, written
  at instant 5000; and one over a status table that records five items for each
  kind.
\<close>

definition world_with_cache :: "json \<Rightarrow> world" where
  "world_with_cache payload =
     (new_world example_env)
       \<lparr>db := \<lparr>feed_cache =
                  [''calendar'' \<mapsto> \<lparr>data = payload, created_at = 5000, updated_at = 5000\<rparr>,
                   ''notification'' \<mapsto> \<lparr>data = payload, created_at = 5000, updated_at = 5000\<rparr>,
                   ''queue'' \<mapsto> \<lparr>data = payload, created_at = 5000, updated_at = 5000\<rparr>],
                feed_metadata = Map.empty\<rparr>\<rparr>"

definition five_items :: metadata_row where
  "five_items =
     \<lparr>last_fetch = 5000, item_count = JNum 5, status = ''success'', error_message = None,
      meta_updated_at = 5000\<rparr>"

definition world_after_success :: world where
  "world_after_success =
     (new_world example_env)
       \<lparr>db := \<lparr>feed_cache = Map.empty,
                feed_metadata =
                  [''calendar'' \<mapsto> five_items, ''notification'' \<mapsto> five_items,
                   ''queue'' \<mapsto> five_items]\<rparr>\<rparr>"

section \<open>What a refresh does to one kind\<close>

text \<open>
  Everything the program keeps for one kind: its cache row, its status row, its
  file, the writes of that file, the requests to its path, and the time of its last
  fetch.
\<close>

definition kind_view ::
  "string \<Rightarrow> world \<Rightarrow>
     cache_row option \<times> metadata_row option \<times> string option \<times> string list \<times> api_request list \<times> int option" where
  "kind_view k w =
     (feed_cache (db w) k,
      feed_metadata (db w) k,
      feeds (fs w) (k @ ''.xml''),
      filter (\<lambda>name. name = k @ ''.xml'') (writes (fs w)),
      filter (\<lambda>req. path req = ''/'' @ k) (requests w),
      lastFetchTimes w k)"

text \<open>
  The three refreshes have one shape: the \<^verbatim>\<open>catch\<close> block applied to what the \<^verbatim>\<open>try\<close>
  block leaves, the \<^verbatim>\<open>try\<close> block being the cache read or the request, then the
  generation of the feed and the success metadata. The lemmas below are proved for
  the shape and then used for each refresh.
\<close>

abbreviation (input) refresh_shape ::
  "runtime \<Rightarrow> env \<Rightarrow> int \<Rightarrow> upstream \<Rightarrow> string \<Rightarrow> api_request \<Rightarrow> string \<Rightarrow> feed
     \<Rightarrow> (json \<Rightarrow> failure + feed_item list) \<Rightarrow> (json \<Rightarrow> json) \<Rightarrow> (json \<Rightarrow> jsval) \<Rightarrow> world \<Rightarrow> world" where
  "refresh_shape rt e now up k req name base its pick count w \<equiv>
     catch_error rt now k
       (case cached_or_fetched e now k (\<lambda>w'. client_get up w' req) w of
          (w1, Inl err) \<Rightarrow> (w1, Some err)
        | (w1, Inr p) \<Rightarrow>
            generate_and_record now k (\<lambda>dir q. write_feed rt dir name base (its q))
              (pick p) (count p) w1)"

section \<open>Properties of the cache store\<close>

lemma getCachedFeedData_keeps_database:
  "snd (getCachedFeedData e now store k) = store"
  by (simp add: getCachedFeedData_def Let_def split: option.split)

lemma getCachedFeedData_stays_absent:
  assumes "now \<le> now'" and "fst (getCachedFeedData e now store k) = JNull"
  shows "fst (getCachedFeedData e now' store k) = JNull"
proof (cases "feed_cache store k")
  case None
  then show ?thesis
    by (simp add: getCachedFeedData_def)
next
  case (Some r)
  show ?thesis
  proof (cases "now' - updated_at r < cacheTTL e")
    case True
    with assms(1) have "now - updated_at r < cacheTTL e"
      by linarith
    with assms(2) Some have "data r = JNull"
      by (simp add: getCachedFeedData_def)
    with Some True show ?thesis
      by (simp add: getCachedFeedData_def)
  next
    case False
    with Some show ?thesis
      by (simp add: getCachedFeedData_def)
  qed
qed

text \<open>
  Claim C1. A cache read returns the stored payload when a row for the kind exists
  and its age \<open>now - updated_at\<close> is strictly below the configured TTL; in every
  other case (no row, or a row of age at least the TTL) it returns \<^verbatim>\<open>null\<close>. The read
  leaves the database as it was, so a stale row stays stored; and a read that
  returned \<^verbatim>\<open>null\<close> is followed by \<^verbatim>\<open>null\<close> at every later instant, until the row is
  written again.
\<close>

theorem getCachedFeedData_hit_iff_fresh:
  "(\<forall>r. feed_cache store k = Some r \<and> now - updated_at r < cacheTTL e
        \<longrightarrow> fst (getCachedFeedData e now store k) = data r)
   \<and> ((\<nexists>r. feed_cache store k = Some r \<and> now - updated_at r < cacheTTL e)
        \<longrightarrow> fst (getCachedFeedData e now store k) = JNull)
   \<and> snd (getCachedFeedData e now store k) = store
   \<and> (\<forall>now'. now \<le> now' \<and> fst (getCachedFeedData e now store k) = JNull
        \<longrightarrow> fst (getCachedFeedData e now' (snd (getCachedFeedData e now store k)) k) = JNull)"
proof (intro conjI allI impI)
  fix r
  assume "feed_cache store k = Some r \<and> now - updated_at r < cacheTTL e"
  then show "fst (getCachedFeedData e now store k) = data r"
    by (simp add: getCachedFeedData_def)
next
  assume "\<nexists>r. feed_cache store k = Some r \<and> now - updated_at r < cacheTTL e"
  then show "fst (getCachedFeedData e now store k) = JNull"
    by (cases "feed_cache store k") (auto simp add: getCachedFeedData_def)
next
  show "snd (getCachedFeedData e now store k) = store"
    by (rule getCachedFeedData_keeps_database)
next
  fix now'
  assume "now \<le> now' \<and> fst (getCachedFeedData e now store k) = JNull"
  then have "fst (getCachedFeedData e now' store k) = JNull"
    using getCachedFeedData_stays_absent [of now now' e store k] by blast
  then show "fst (getCachedFeedData e now' (snd (getCachedFeedData e now store k)) k) = JNull"
    by (simp add: getCachedFeedData_keeps_database)
qed

theorem getCachedFeedData_hit_iff_fresh_witness:
  "feed_cache store_one_row ''calendar''
     = Some \<lparr>data = JArr [JObj [(''id'', JNum 1)]], created_at = 1, updated_at = 5000\<rparr>
   \<and> cacheTTL env_ttl_1000 = 1000
   \<and> fst (getCachedFeedData env_ttl_1000 5999 store_one_row ''calendar'') = JArr [JObj [(''id'', JNum 1)]]
   \<and> fst (getCachedFeedData env_ttl_1000 6000 store_one_row ''calendar'') = JNull
   \<and> snd (getCachedFeedData env_ttl_1000 6000 store_one_row ''calendar'') = store_one_row
   \<and> fst (getCachedFeedData env_ttl_1000 7000
            (snd (getCachedFeedData env_ttl_1000 6000 store_one_row ''calendar'')) ''calendar'') = JNull"
proof -
  have row: "feed_cache store_one_row ''calendar''
     = Some \<lparr>data = JArr [JObj [(''id'', JNum 1)]], created_at = 1, updated_at = 5000\<rparr>"
    by (simp add: store_one_row_def)
  have ttl: "cacheTTL env_ttl_1000 = 1000"
    by (simp add: cacheTTL_def parseInt_or_def env_ttl_1000_def)
  have fresh: "fst (getCachedFeedData env_ttl_1000 5999 store_one_row ''calendar'')
                 = JArr [JObj [(''id'', JNum 1)]]"
    using getCachedFeedData_hit_iff_fresh [of store_one_row "''calendar''" 5999 env_ttl_1000] row ttl
    by simp
  have stale: "fst (getCachedFeedData env_ttl_1000 6000 store_one_row ''calendar'') = JNull"
    and kept: "snd (getCachedFeedData env_ttl_1000 6000 store_one_row ''calendar'') = store_one_row"
    using getCachedFeedData_hit_iff_fresh [of store_one_row "''calendar''" 6000 env_ttl_1000] row ttl
    by simp_all
  have all_later: "\<And>now'. 6000 \<le> now' \<Longrightarrow>
      fst (getCachedFeedData env_ttl_1000 6000 store_one_row ''calendar'') = JNull \<Longrightarrow>
      fst (getCachedFeedData env_ttl_1000 now'
            (snd (getCachedFeedData env_ttl_1000 6000 store_one_row ''calendar'')) ''calendar'') = JNull"
    using getCachedFeedData_hit_iff_fresh [of store_one_row "''calendar''" 6000 env_ttl_1000]
    by blast
  have later: "fst (getCachedFeedData env_ttl_1000 7000
            (snd (getCachedFeedData env_ttl_1000 6000 store_one_row ''calendar'')) ''calendar'') = JNull"
    by (rule all_later) (simp_all add: stale)
  show ?thesis
    using row ttl fresh stale kept later by simp
qed

text \<open>
  Claim C8. Storing a payload for a kind and reading the kind back before the TTL
  has elapsed since the write returns that payload, whatever the table held before.
\<close>

theorem setCachedFeedData_then_get:
  "now' - now < cacheTTL e \<Longrightarrow>
     fst (getCachedFeedData e now' (setCachedFeedData now store k X) k) = X"
  by (cases "feed_cache store k") (simp_all add: getCachedFeedData_def setCachedFeedData_def)

theorem setCachedFeedData_then_get_witness:
  "(1005::int) - 1000 < cacheTTL \<lparr>RSS_CACHE_TTL = None, FETCH_FREQUENCY = None, PORT = None\<rparr>
   \<and> fst (getCachedFeedData \<lparr>RSS_CACHE_TTL = None, FETCH_FREQUENCY = None, PORT = None\<rparr> 1005
          (setCachedFeedData 1000 \<lparr>feed_cache = Map.empty, feed_metadata = Map.empty\<rparr> ''queue''
             (JObj [(''records'', JArr [JObj [(''id'', JNum 1)]])])) ''queue'')
       = JObj [(''records'', JArr [JObj [(''id'', JNum 1)]])]"
proof -
  have h: "(1005::int) - 1000 < cacheTTL \<lparr>RSS_CACHE_TTL = None, FETCH_FREQUENCY = None, PORT = None\<rparr>"
    by (simp add: cacheTTL_def parseInt_or_def)
  show ?thesis
    using h setCachedFeedData_then_get [OF h] by simp
qed

section \<open>Properties of the materializer\<close>

subsection \<open>The progress arithmetic\<close>

text \<open>
  Rounding to a double moves a number by at most one part in \<open>2^53\<close>, and the three
  roundings of the progress arithmetic move the percentage of a download in
  progress by less than \<open>100 / 2^51\<close>.
\<close>

lemma round_half_even_error: "\<bar>of_int (round_half_even y) - y\<bar> \<le> 1 / 2"
proof -
  have "of_int \<lfloor>y\<rfloor> \<le> y" "y < of_int \<lfloor>y\<rfloor> + 1"
    by linarith+
  then show ?thesis
    by (auto simp add: round_half_even_def Let_def)
qed

lemma round_half_even_nonneg: "0 \<le> y \<Longrightarrow> 0 \<le> round_half_even y"
  by (auto simp add: round_half_even_def Let_def)

lemma bitlen_bounds_rat:
  assumes "0 < a"
  shows "(2::rat) powi (bitlen a - 1) \<le> of_int a" and "of_int a < (2::rat) powi (bitlen a)"
proof -
  from bitlen_bounds [OF assms]
  have l: "2 ^ nat (bitlen a - 1) \<le> a" and u: "a < 2 ^ nat (bitlen a)"
    by simp_all
  have p: "1 \<le> bitlen a"
    using assms bitlen_eq_zero_iff [of a] bitlen_nonneg [of a] by linarith
  have "(of_int (2 ^ nat (bitlen a - 1)) :: rat) \<le> of_int a"
    using l by (simp only: of_int_le_iff)
  then show "(2::rat) powi (bitlen a - 1) \<le> of_int a"
    using p by (simp add: power_int_def)
  have "(of_int a :: rat) < of_int (2 ^ nat (bitlen a))"
    using u by (simp only: of_int_less_iff)
  then show "of_int a < (2::rat) powi (bitlen a)"
    using p by (simp add: power_int_def)
qed

lemma exponent_bounds:
  assumes "0 < x"
  shows "2 powi (exponent x) \<le> x" and "x < 2 powi (exponent x + 1)"
proof -
  obtain a b where q: "quotient_of x = (a, b)"
    by (cases "quotient_of x")
  then have b: "0 < b" and x: "x = of_int a / of_int b"
    using quotient_of_denom_pos quotient_of_div by blast+
  from assms x b have a: "0 < a"
    by (simp add: zero_less_divide_iff)
  let ?d = "bitlen a - bitlen b"
  have lo: "(2::rat) powi (?d - 1) \<le> x"
  proof -
    have "(2::rat) powi (?d - 1) = 2 powi (bitlen a - 1) / 2 powi (bitlen b)"
      by (simp add: power_int_diff)
    also have "\<dots> \<le> of_int a / 2 powi (bitlen b)"
      using bitlen_bounds_rat(1) [OF a] by (simp add: divide_right_mono)
    also have "\<dots> \<le> of_int a / of_int b"
      using bitlen_bounds_rat(2) [OF b] a b by (simp add: frac_le)
    finally show ?thesis by (simp add: x)
  qed
  have hi: "x < (2::rat) powi (?d + 1)"
  proof -
    have "x = of_int a / of_int b" by (rule x)
    also have "\<dots> < 2 powi (bitlen a) / of_int b"
      using bitlen_bounds_rat(2) [OF a] b by (simp add: divide_strict_right_mono)
    also have "\<dots> \<le> 2 powi (bitlen a) / 2 powi (bitlen b - 1)"
      using bitlen_bounds_rat(1) [OF b] b by (simp add: frac_le)
    also have "\<dots> = (2::rat) powi (?d + 1)"
      by (simp add: power_int_diff power_int_add)
    finally show ?thesis .
  qed
  show "2 powi (exponent x) \<le> x"
    using lo by (simp add: exponent_def q Let_def)
  show "x < 2 powi (exponent x + 1)"
    using hi by (auto simp add: exponent_def q Let_def not_le)
qed


text \<open>
  The number that \<open>to_double\<close> rounds to an integer is a significand of \<open>53\<close> bits.
\<close>

lemma significand_bounds:
  assumes "0 < x"
  shows "2 ^ 52 \<le> x / 2 powi (exponent x - 52)" and "x / 2 powi (exponent x - 52) < 2 ^ 53"
proof -
  define p :: rat where "p = 2 powi (exponent x)"
  have p: "0 < p" by (simp add: p_def)
  have u: "(2::rat) powi (exponent x - 52) = p / 2 ^ 52"
    by (simp add: p_def power_int_diff)
  have lo: "p \<le> x" using exponent_bounds(1) [OF assms] by (simp add: p_def)
  have "x < 2 powi (exponent x + 1)" using assms by (rule exponent_bounds(2))
  then have hi: "x < p * 2" by (simp add: p_def power_int_add)
  show "2 ^ 52 \<le> x / 2 powi (exponent x - 52)"
    using p lo unfolding u by (simp add: field_simps)
  show "x / 2 powi (exponent x - 52) < 2 ^ 53"
    using p hi unfolding u by (simp add: field_simps)
qed

lemma to_double_error: "\<bar>to_double x - x\<bar> \<le> \<bar>x\<bar> / 2 ^ 53"
proof (cases "x = 0")
  case True
  then show ?thesis by (simp add: to_double_def)
next
  case False
  define a where "a = \<bar>x\<bar>"
  define u :: rat where "u = 2 powi (exponent a - 52)"
  define R :: rat where "R = of_int (round_half_even (a / u))"
  have a: "0 < a" using False by (simp add: a_def)
  have u: "0 < u" by (simp add: u_def)
  have td: "to_double x = sgn x * R * u"
    using False by (simp add: to_double_def Let_def a_def u_def R_def)
  have xs: "x = sgn x * a"
    by (simp add: a_def mult_sgn_abs)
  have "to_double x - x = sgn x * (R * u - a)"
    by (subst (2) xs) (simp add: td algebra_simps)
  then have "\<bar>to_double x - x\<bar> = \<bar>R * u - a\<bar>"
    using False by (simp add: abs_mult abs_sgn_eq)
  also have "R * u - a = u * (R - a / u)"
    using u by (simp add: algebra_simps)
  also have "\<bar>u * (R - a / u)\<bar> = u * \<bar>R - a / u\<bar>"
    using u by (simp add: abs_mult)
  also have "\<dots> \<le> u * (1 / 2)"
    using round_half_even_error [of "a / u"] u
    by (intro mult_left_mono) (simp_all add: R_def)
  also have "u * (1 / 2) = 2 powi (exponent a) / 2 ^ 53"
    by (simp add: u_def power_int_diff)
  also have "\<dots> \<le> a / 2 ^ 53"
    using exponent_bounds(1) [OF a] by (simp add: divide_right_mono)
  finally show ?thesis by (simp add: a_def)
qed

lemma to_double_nonneg: "0 \<le> x \<Longrightarrow> 0 \<le> to_double x"
  by (simp add: to_double_def Let_def round_half_even_nonneg)

lemma to_double_between:
  assumes "0 \<le> x"
  shows "x * (1 - 1 / 2 ^ 53) \<le> to_double x" and "to_double x \<le> x * (1 + 1 / 2 ^ 53)"
proof -
  have "\<bar>to_double x - x\<bar> \<le> x / 2 ^ 53"
    using to_double_error [of x] assms by simp
  then have "to_double x - x \<le> x / 2 ^ 53" and "x - to_double x \<le> x / 2 ^ 53"
    by linarith+
  then show "x * (1 - 1 / 2 ^ 53) \<le> to_double x" and "to_double x \<le> x * (1 + 1 / 2 ^ 53)"
    by (simp_all add: algebra_simps)
qed

lemma progress_double_close:
  assumes "0 < l" and "l \<le> s"
  shows "0 \<le> progress_double s l"
    and "\<bar>progress_double s l - of_int (s - l) / of_int s * 100\<bar> \<le> 100 / 2 ^ 51"
proof -
  define d :: rat where "d = of_int s - of_int l"
  define S :: rat where "S = of_int s"
  define e :: rat where "e = 1 / 2 ^ 53"
  define d' where "d' = to_double d"
  define q where "q = to_double (d' / S)"
  define p where "p = to_double (q * 100)"
  have S: "0 < S" using assms by (simp add: S_def)
  have d: "0 \<le> d" "d < S" using assms by (simp_all add: d_def S_def)
  have e: "0 < e" "e < 1" by (simp_all add: e_def)
  have d'0: "0 \<le> d'" using d by (simp add: d'_def to_double_nonneg)
  have d'1: "d * (1 - e) \<le> d'" and d'2: "d' \<le> d * (1 + e)"
    using to_double_between [OF d(1)] by (simp_all add: d'_def e_def)
  have r0: "0 \<le> d' / S" using d'0 S by simp
  have q0: "0 \<le> q" using r0 by (simp add: q_def to_double_nonneg)
  have q1: "d' / S * (1 - e) \<le> q" and q2: "q \<le> d' / S * (1 + e)"
    using to_double_between [OF r0] by (simp_all add: q_def e_def)
  have m0: "0 \<le> q * 100" using q0 by simp
  have p0: "0 \<le> p" using m0 by (simp add: p_def to_double_nonneg)
  have p1: "q * 100 * (1 - e) \<le> p" and p2: "p \<le> q * 100 * (1 + e)"
    using to_double_between [OF m0] by (simp_all add: p_def e_def)
  define X where "X = d / S * 100"
  have X: "0 \<le> X" "X < 100" using d S by (simp_all add: X_def field_simps)
  have up: "p \<le> X * ((1 + e) * (1 + e) * (1 + e))"
  proof -
    have "d' / S \<le> d * (1 + e) / S"
      using d'2 S by (simp add: divide_right_mono)
    then have "d' / S * (1 + e) \<le> d * (1 + e) / S * (1 + e)"
      by (rule mult_right_mono) (use e in simp)
    with q2 have "q \<le> d * (1 + e) / S * (1 + e)"
      by linarith
    then have "q * 100 \<le> d * (1 + e) / S * (1 + e) * 100"
      by (rule mult_right_mono) simp
    then have "q * 100 * (1 + e) \<le> d * (1 + e) / S * (1 + e) * 100 * (1 + e)"
      by (rule mult_right_mono) (use e in simp)
    with p2 have "p \<le> d * (1 + e) / S * (1 + e) * 100 * (1 + e)"
      by linarith
    also have "\<dots> = X * ((1 + e) * (1 + e) * (1 + e))"
      by (simp add: X_def)
    finally show ?thesis .
  qed
  have lo: "X * ((1 - e) * (1 - e) * (1 - e)) \<le> p"
  proof -
    have "d * (1 - e) / S \<le> d' / S"
      using d'1 S by (simp add: divide_right_mono)
    then have "d * (1 - e) / S * (1 - e) \<le> d' / S * (1 - e)"
      by (rule mult_right_mono) (use e in simp)
    with q1 have "d * (1 - e) / S * (1 - e) \<le> q"
      by linarith
    then have "d * (1 - e) / S * (1 - e) * 100 \<le> q * 100"
      by (rule mult_right_mono) simp
    then have "d * (1 - e) / S * (1 - e) * 100 * (1 - e) \<le> q * 100 * (1 - e)"
      by (rule mult_right_mono) (use e in simp)
    with p1 have "d * (1 - e) / S * (1 - e) * 100 * (1 - e) \<le> p"
      by linarith
    moreover have "d * (1 - e) / S * (1 - e) * 100 * (1 - e) = X * ((1 - e) * (1 - e) * (1 - e))"
      by (simp add: X_def)
    ultimately show ?thesis by simp
  qed
  have c1: "(1 + e) * (1 + e) * (1 + e) \<le> 1 + 1 / 2 ^ 51"
    by (simp add: e_def)
  have c2: "1 - 1 / 2 ^ 51 \<le> (1 - e) * (1 - e) * (1 - e)"
    by (simp add: e_def)
  have "p \<le> X * (1 + 1 / 2 ^ 51)"
    using up c1 X(1) by (meson mult_left_mono order_trans)
  then have u: "p - X \<le> X / 2 ^ 51"
    by (simp add: algebra_simps)
  have "X * (1 - 1 / 2 ^ 51) \<le> p"
    using lo c2 X(1) by (meson mult_left_mono order_trans)
  then have l: "X - p \<le> X / 2 ^ 51"
    by (simp add: algebra_simps)
  from u l have "\<bar>p - X\<bar> \<le> X / 2 ^ 51"
    by linarith
  also have "\<dots> \<le> 100 / 2 ^ 51"
    using X by (simp add: divide_right_mono)
  finally have "\<bar>p - X\<bar> \<le> 100 / 2 ^ 51" .
  then show "\<bar>progress_double s l - of_int (s - l) / of_int s * 100\<bar> \<le> 100 / 2 ^ 51"
    by (simp add: progress_double_def p_def q_def d'_def d_def S_def X_def)
  show "0 \<le> progress_double s l"
    using p0 by (simp add: progress_double_def p_def q_def d'_def d_def S_def)
qed


lemma progress_double_floor:
  assumes "0 < l" and "l \<le> s" and "s \<le> 10 ^ 12"
    and "(2000 * (s - l) + s) mod (2 * s) \<noteq> 0"
  shows "\<lfloor>progress_double s l * 10 + 1 / 2\<rfloor>
           = \<lfloor>of_int (s - l) / of_int s * 100 * 10 + 1 / 2 :: rat\<rfloor>"
proof -
  define X :: rat where "X = of_int (s - l) / of_int s * 100"
  define p where "p = progress_double s l"
  define m where "m = 2000 * (s - l) + s"
  define t where "t = 2 * s"
  define N where "N = m div t"
  define r where "r = m mod t"
  have s: "0 < s" using assms by linarith
  have t: "0 < t" "t \<le> 2 * 10 ^ 12" using s assms(3) by (simp_all add: t_def)
  have r: "0 < r" "r < t"
  proof -
    have "r \<noteq> 0" using assms(4) by (simp add: r_def m_def t_def)
    moreover have "0 \<le> r" using t by (simp add: r_def)
    ultimately show "0 < r" by linarith
    show "r < t" using t by (simp add: r_def)
  qed
  have m: "m = t * N + r" by (simp add: N_def r_def)
  have Y: "X * 10 + 1 / 2 = of_int m / of_int t"
    using s by (simp add: X_def m_def t_def field_simps)
  have "of_int m / of_int t = (of_int N :: rat) + of_int r / of_int t"
    using t by (simp add: m field_simps)
  with Y have Y': "X * 10 + 1 / 2 = of_int N + of_int r / of_int t" by simp
  have tq: "(0::rat) < of_int t" using t by simp
  have g1: "1 / of_int t \<le> (of_int r :: rat) / of_int t"
    using r tq by (simp add: divide_right_mono)
  have "(of_int r :: rat) \<le> of_int t - 1"
    using r by (metis of_int_1 of_int_diff of_int_le_iff zle_diff1_eq)
  then have g2: "(of_int r :: rat) / of_int t \<le> 1 - 1 / of_int t"
    using tq by (simp add: field_simps)
  have "(of_int t :: rat) \<le> 2 * 10 ^ 12"
    using t(2) by (metis of_int_le_iff of_int_numeral of_int_mult of_int_power)
  then have "1 / (2 * 10 ^ 12) \<le> 1 / (of_int t :: rat)"
    using tq by (simp add: frac_le)
  then have small: "1000 / 2 ^ 51 < 1 / (of_int t :: rat)"
    by simp
  have c: "\<bar>p - X\<bar> \<le> 100 / 2 ^ 51"
    using progress_double_close(2) [OF assms(1,2)] by (simp add: p_def X_def)
  have lo: "of_int N \<le> p * 10 + 1 / 2"
    using c Y' g1 small by linarith
  have hi: "p * 10 + 1 / 2 < of_int N + 1"
    using c Y' g2 small by linarith
  have fp: "\<lfloor>p * 10 + 1 / 2\<rfloor> = N"
    using lo hi by (rule floor_unique)
  have tpos: "0 < 1 / (of_int t :: rat)" using tq by simp
  have "of_int N \<le> X * 10 + 1 / 2" "X * 10 + 1 / 2 < of_int N + 1"
    using Y' g1 g2 tpos by linarith+
  then have fx: "\<lfloor>X * 10 + 1 / 2\<rfloor> = N"
    by (rule floor_unique)
  from fp fx show ?thesis
    by (simp add: p_def X_def)
qed

text \<open>
  So for a download in progress of \<open>10^12\<close> bytes at most, \<^verbatim>\<open>toFixed(1)\<close> of the computed
  percentage is the exact quotient \<open>(size - sizeleft) / size * 100\<close> rounded to one
  decimal, unless the exact quotient lies halfway between two neighbouring
  one-decimal values.
\<close>

lemma progress_double_toFixed1:
  assumes "0 < l" and "l \<le> s" and "s \<le> 10 ^ 12"
    and "(2000 * (s - l) + s) mod (2 * s) \<noteq> 0"
  shows "toFixed1 (progress_double s l) = toFixed1 (of_int (s - l) / of_int s * 100)"
proof -
  have p: "0 \<le> progress_double s l"
    using assms(1,2) by (rule progress_double_close(1))
  have x: "(0::rat) \<le> of_int (s - l) / of_int s * 100"
    using assms(1,2) by (intro mult_nonneg_nonneg divide_nonneg_nonneg) simp_all
  have a: "\<bar>progress_double s l\<bar> = progress_double s l"
    using p by (rule abs_of_nonneg)
  have b: "\<not> progress_double s l < 0"
    using p by (simp only: not_less)
  have c: "\<bar>of_int (s - l) / of_int s * 100 :: rat\<bar> = of_int (s - l) / of_int s * 100"
    using x by (rule abs_of_nonneg)
  have d: "\<not> (of_int (s - l) / of_int s * 100 :: rat) < 0"
    using x by (simp only: not_less)
  show ?thesis
    unfolding toFixed1_def a c
    by (simp only: progress_double_floor [OF assms] b d)
qed

text \<open>
  Half of \<open>1073741824\<close> bytes left is \<open>50.0\<close>. With \<open>1997\<close> of \<open>2000\<close> bytes left the exact
  quotient is \<open>0.15\<close>, halfway between \<open>0.1\<close> and \<open>0.2\<close>; the computed percentage is the
  double below it, and the text is \<open>0.1\<close>.
\<close>

lemma progress_double_half: "toFixed1 (progress_double 1073741824 536870912) = ''50.0''"
  by code_simp

lemma progress_double_tie:
  "progress_double 2000 1997 = 5404319552844595 / 36028797018963968"
  "toFixed1 (progress_double 2000 1997) = ''0.1''"
  "toFixed1 (of_int (2000 - 1997) / of_int 2000 * 100) = ''0.2''"
  "toFixed1 (3 / 20) = ''0.2''"
  by code_simp+

subsection \<open>The description of a queue item\<close>

lemma labelled_inject: "labelled a s = labelled a t \<longleftrightarrow> s = t"
  by (simp add: labelled_def)

text \<open>
  The parts of the description hold a \<open>Progress\<close> paragraph exactly when \<^verbatim>\<open>size\<close> and
  \<^verbatim>\<open>sizeleft\<close> are both truthy.
\<close>

lemma queue_parts_Progress_iff:
  assumes "queue_parts rt item = Inr parts"
  shows "(\<exists>t. labelled ''Progress'' t \<in> set parts)
           \<longleftrightarrow> truthy (get item ''size'') \<and> truthy (get item ''sizeleft'')"
  using assms
  by (auto simp add: queue_parts_def bind_e_def part_if_def labelled_def
        split: if_splits sum.splits)

text \<open>
  For two numbers other than zero the paragraph shows the computed percentage, and
  for a download in progress that is the exact quotient rounded to one decimal,
  ties apart.
\<close>

lemma queue_parts_Progress_text:
  assumes "queue_parts rt item = Inr parts"
      and "get item ''size'' = Some (JNum s)" and "s \<noteq> 0" and "\<bar>s\<bar> \<le> 2 ^ 53"
      and "get item ''sizeleft'' = Some (JNum l)" and "l \<noteq> 0" and "\<bar>l\<bar> \<le> 2 ^ 53"
  shows "labelled ''Progress'' (toFixed1 (progress_double s l) @ ''%'') \<in> set parts"
  using assms
  by (auto simp add: queue_parts_def bind_e_def part_if_def or_else_def progress_text_def
        split: if_splits sum.splits)

lemma queue_parts_Progress_rounded:
  assumes "queue_parts rt item = Inr parts"
      and "get item ''size'' = Some (JNum s)" and "get item ''sizeleft'' = Some (JNum l)"
      and "0 < l" and "l \<le> s" and "s \<le> 10 ^ 12"
      and "(2000 * (s - l) + s) mod (2 * s) \<noteq> 0"
  shows "labelled ''Progress'' (toFixed1 (of_int (s - l) / of_int s * 100) @ ''%'') \<in> set parts"
proof -
  have "\<bar>s\<bar> \<le> 2 ^ 53" "\<bar>l\<bar> \<le> 2 ^ 53" "s \<noteq> 0" "l \<noteq> 0"
    using assms(4,5,6) by simp_all
  with assms(1,2,3)
  have "labelled ''Progress'' (toFixed1 (progress_double s l) @ ''%'') \<in> set parts"
    by (simp add: queue_parts_Progress_text)
  then show ?thesis
    by (simp only: progress_double_toFixed1 [OF assms(4,5,6,7)])
qed

lemma queue_parts_tie:
  "queue_parts rt (JObj [(''status'', JStr ''downloading''), (''size'', JNum 2000),
                         (''sizeleft'', JNum 1997)])
     = Inr [labelled ''Status'' ''downloading'', labelled ''Progress'' ''0.1%'']"
  by (simp add: queue_parts_def bind_e_def or_else_def part_if_def progress_text_def
        progress_double_tie(2))

lemma queue_parts_downloading:
  "queue_parts rt queue_item_downloading =
     Inr [labelled ''Status'' ''downloading'', labelled ''Progress'' ''50.0%'']"
  by (simp add: queue_item_downloading_def queue_parts_def bind_e_def or_else_def part_if_def
        progress_text_def progress_double_half)

lemma queue_item_downloading_feed:
  "feed_items (queue_item rt now) (JArr [queue_item_downloading]) =
     Inr [\<lparr>item_title = JStr ''X - downloading'',
           item_description =
             ''<p><strong>Status:</strong> downloading</p>'' @ [CHR 0x0A]
               @ ''<p><strong>Progress:</strong> 50.0%</p>'',
           item_url = ''#'',
           item_guid = ''queue-'' @ show_int now,
           item_date = DateNow now,
           item_categories = [JStr ''Queue'', JStr ''downloading'']\<rparr>]"
  by (simp add: feed_items_def queue_item_def queue_item_downloading_def buildQueueDescription_def
        queue_parts_def bind_e_def or_else_def part_if_def labelled_def progress_text_def
        progress_double_half join_or_def text_of_def imdb_url_def new_Date_def filter_Boolean_def)

lemma join_with_nonempty: "x \<noteq> [] \<Longrightarrow> join_with sep (x # xs) \<noteq> []"
  by (cases xs) simp_all

lemma queue_parts_joined:
  assumes "queue_parts rt item = Inr parts"
  shows "buildQueueDescription rt item = Inr (join_with [CHR 0x0A] parts)"
proof -
  from assms obtain rest where "parts = labelled ''Status''
      (toStr (or_else (get item ''status'') (JStr ''Unknown''))) # rest"
    by (auto simp add: queue_parts_def bind_e_def split: if_splits sum.splits)
  then have "join_with [CHR 0x0A] parts \<noteq> []"
    by (simp add: join_with_nonempty labelled_def)
  with assms show ?thesis
    by (simp add: buildQueueDescription_def bind_e_def join_or_def)
qed

text \<open>
  Materializing the record of the specification's example writes the serialization
  of a feed with one item, titled \<open>X - downloading\<close>, whose description has the
  paragraph \<open>Progress: 50.0%\<close>.
\<close>

lemma generateQueueFeed_downloading:
  "generateQueueFeed rt e now dir (JArr [queue_item_downloading]) =
       (writeFile dir ''queue.xml''
          (xml rt ((createBaseFeed rt e now ''Queue Feed'' ''Download queue status and progress''
                      (''http://localhost:'' @ port e @ ''/rss/queue''))
             \<lparr>items :=
                [\<lparr>item_title = JStr ''X - downloading'',
                  item_description =
                    ''<p><strong>Status:</strong> downloading</p>'' @ [CHR 0x0A]
                      @ ''<p><strong>Progress:</strong> 50.0%</p>'',
                  item_url = ''#'',
                  item_guid = ''queue-'' @ show_int now,
                  item_date = DateNow now,
                  item_categories = [JStr ''Queue'', JStr ''downloading'']\<rparr>]\<rparr>)),
        Inr (xml rt ((createBaseFeed rt e now ''Queue Feed'' ''Download queue status and progress''
                      (''http://localhost:'' @ port e @ ''/rss/queue''))
             \<lparr>items :=
                [\<lparr>item_title = JStr ''X - downloading'',
                  item_description =
                    ''<p><strong>Status:</strong> downloading</p>'' @ [CHR 0x0A]
                      @ ''<p><strong>Progress:</strong> 50.0%</p>'',
                  item_url = ''#'',
                  item_guid = ''queue-'' @ show_int now,
                  item_date = DateNow now,
                  item_categories = [JStr ''Queue'', JStr ''downloading'']\<rparr>]\<rparr>)))"
  by (simp only: generateQueueFeed_def write_feed_def queue_item_downloading_feed sum.case)

text \<open>
  The guard of the \<open>Progress\<close> paragraph is \<^verbatim>\<open>item.size && item.sizeleft\<close>, and \<open>0\<close> is
  falsy. The record of a finished download has both size fields, \<^verbatim>\<open>size\<close> is above
  zero and \<^verbatim>\<open>sizeleft\<close> is \<open>0\<close>: its description is the \<open>Status\<close> paragraph alone, where
  the percentage would be \<open>100.0\<close>.
\<close>

lemma queue_parts_completed:
  "get queue_item_completed ''size'' = Some (JNum 2147483648)"
  "get queue_item_completed ''sizeleft'' = Some (JNum 0)"
  "queue_parts rt queue_item_completed = Inr [''<p><strong>Status:</strong> completed</p>'']"
  "buildQueueDescription rt queue_item_completed = Inr ''<p><strong>Status:</strong> completed</p>''"
  by (simp_all add: queue_item_completed_def buildQueueDescription_def queue_parts_def bind_e_def
        or_else_def part_if_def labelled_def join_or_def)

text \<open>
  Claim C6, as amended. The description of a queue item is its parts joined by
  newlines. Whenever the parts are built: they hold a \<open>Progress\<close> paragraph if \<^verbatim>\<open>size\<close>
  is a number above zero and \<^verbatim>\<open>sizeleft\<close> a number other than zero; they hold none
  unless \<^verbatim>\<open>size\<close> is truthy (present, and neither \<^verbatim>\<open>null\<close> nor \<open>0\<close>) and \<^verbatim>\<open>sizeleft\<close> is
  present and not \<^verbatim>\<open>null\<close>. Nothing is said of a \<^verbatim>\<open>sizeleft\<close> of \<open>0\<close>. For two such numbers
  of magnitude \<open>2^53\<close> at most the paragraph shows \<^verbatim>\<open>toFixed(1)\<close> of
  \<open>(size - sizeleft) / size * 100\<close> as computed in double precision, followed by a
  percent sign; for \<open>0 < sizeleft \<le> size \<le> 10^12\<close> that is the exact quotient rounded to one
  decimal, unless ten times the exact quotient lies halfway between two integers.
  Materializing the record of the specification's example writes the
  serialization of a feed with one item, titled \<open>X - downloading\<close>, whose
  description has the paragraph \<open>Progress: 50.0%\<close>.
\<close>

theorem queue_progress_of_numeric_sizes:
  "(\<forall>parts. queue_parts rt item = Inr parts \<longrightarrow>
      buildQueueDescription rt item = Inr (join_with [CHR 0x0A] parts))
   \<and> (\<forall>parts s l. queue_parts rt item = Inr parts
          \<and> get item ''size'' = Some (JNum s) \<and> 0 < s
          \<and> get item ''sizeleft'' = Some (JNum l) \<and> l \<noteq> 0 \<longrightarrow>
        (\<exists>t. labelled ''Progress'' t \<in> set parts))
   \<and> (\<forall>parts. queue_parts rt item = Inr parts
          \<and> (\<exists>t. labelled ''Progress'' t \<in> set parts) \<longrightarrow>
        truthy (get item ''size'') \<and> get item ''sizeleft'' \<noteq> None
          \<and> get item ''sizeleft'' \<noteq> Some JNull)
   \<and> (\<forall>parts s l. queue_parts rt item = Inr parts
          \<and> get item ''size'' = Some (JNum s) \<and> 0 < s \<and> s \<le> 2 ^ 53
          \<and> get item ''sizeleft'' = Some (JNum l) \<and> l \<noteq> 0 \<and> \<bar>l\<bar> \<le> 2 ^ 53 \<longrightarrow>
        labelled ''Progress'' (toFixed1 (progress_double s l) @ ''%'') \<in> set parts)
   \<and> (\<forall>parts s l. queue_parts rt item = Inr parts
          \<and> get item ''size'' = Some (JNum s) \<and> get item ''sizeleft'' = Some (JNum l)
          \<and> 0 < l \<and> l \<le> s \<and> s \<le> 10 ^ 12
          \<and> (2000 * (s - l) + s) mod (2 * s) \<noteq> 0 \<longrightarrow>
        labelled ''Progress'' (toFixed1 (of_int (s - l) / of_int s * 100) @ ''%'') \<in> set parts)
   \<and> generateQueueFeed rt e now dir (JArr [queue_item_downloading]) =
       (writeFile dir ''queue.xml''
          (xml rt ((createBaseFeed rt e now ''Queue Feed'' ''Download queue status and progress''
                      (''http://localhost:'' @ port e @ ''/rss/queue''))
             \<lparr>items :=
                [\<lparr>item_title = JStr ''X - downloading'',
                  item_description =
                    ''<p><strong>Status:</strong> downloading</p>'' @ [CHR 0x0A]
                      @ ''<p><strong>Progress:</strong> 50.0%</p>'',
                  item_url = ''#'',
                  item_guid = ''queue-'' @ show_int now,
                  item_date = DateNow now,
                  item_categories = [JStr ''Queue'', JStr ''downloading'']\<rparr>]\<rparr>)),
        Inr (xml rt ((createBaseFeed rt e now ''Queue Feed'' ''Download queue status and progress''
                      (''http://localhost:'' @ port e @ ''/rss/queue''))
             \<lparr>items :=
                [\<lparr>item_title = JStr ''X - downloading'',
                  item_description =
                    ''<p><strong>Status:</strong> downloading</p>'' @ [CHR 0x0A]
                      @ ''<p><strong>Progress:</strong> 50.0%</p>'',
                  item_url = ''#'',
                  item_guid = ''queue-'' @ show_int now,
                  item_date = DateNow now,
                  item_categories = [JStr ''Queue'', JStr ''downloading'']\<rparr>]\<rparr>)))"
proof (intro conjI allI impI)
  fix parts
  assume "queue_parts rt item = Inr parts"
  then show "buildQueueDescription rt item = Inr (join_with [CHR 0x0A] parts)"
    by (rule queue_parts_joined)
next
  fix parts s l
  assume a: "queue_parts rt item = Inr parts
          \<and> get item ''size'' = Some (JNum s) \<and> 0 < s
          \<and> get item ''sizeleft'' = Some (JNum l) \<and> l \<noteq> 0"
  then have q: "queue_parts rt item = Inr parts"
    and t: "truthy (get item ''size'') \<and> truthy (get item ''sizeleft'')"
    by auto
  from queue_parts_Progress_iff [OF q] t
  show "\<exists>t. labelled ''Progress'' t \<in> set parts"
    by blast
next
  fix parts
  assume a: "queue_parts rt item = Inr parts \<and> (\<exists>t. labelled ''Progress'' t \<in> set parts)"
  then have q: "queue_parts rt item = Inr parts"
    and t: "\<exists>t. labelled ''Progress'' t \<in> set parts"
    by simp_all
  from queue_parts_Progress_iff [OF q] t
  have ts: "truthy (get item ''size'')" and tl: "truthy (get item ''sizeleft'')"
    by blast+
  show "truthy (get item ''size'')"
    by (rule ts)
  show "get item ''sizeleft'' \<noteq> None"
    using tl by (cases "get item ''sizeleft''") simp_all
  show "get item ''sizeleft'' \<noteq> Some JNull"
    using tl by (cases "get item ''sizeleft''") auto
next
  fix parts s l
  assume a: "queue_parts rt item = Inr parts
          \<and> get item ''size'' = Some (JNum s) \<and> 0 < s \<and> s \<le> 2 ^ 53
          \<and> get item ''sizeleft'' = Some (JNum l) \<and> l \<noteq> 0 \<and> \<bar>l\<bar> \<le> 2 ^ 53"
  then have q: "queue_parts rt item = Inr parts"
    and gs: "get item ''size'' = Some (JNum s)" and gl: "get item ''sizeleft'' = Some (JNum l)"
    and l: "l \<noteq> 0" "\<bar>l\<bar> \<le> 2 ^ 53"
    by simp_all
  from a have s: "s \<noteq> 0" "\<bar>s\<bar> \<le> 2 ^ 53"
    by auto
  show "labelled ''Progress'' (toFixed1 (progress_double s l) @ ''%'') \<in> set parts"
    by (rule queue_parts_Progress_text [OF q gs s gl l])
next
  fix parts s l
  assume "queue_parts rt item = Inr parts
          \<and> get item ''size'' = Some (JNum s) \<and> get item ''sizeleft'' = Some (JNum l)
          \<and> 0 < l \<and> l \<le> s \<and> s \<le> 10 ^ 12
          \<and> (2000 * (s - l) + s) mod (2 * s) \<noteq> 0"
  then show "labelled ''Progress'' (toFixed1 (of_int (s - l) / of_int s * 100) @ ''%'') \<in> set parts"
    using queue_parts_Progress_rounded by blast
next
  show "generateQueueFeed rt e now dir (JArr [queue_item_downloading]) =
       (writeFile dir ''queue.xml''
          (xml rt ((createBaseFeed rt e now ''Queue Feed'' ''Download queue status and progress''
                      (''http://localhost:'' @ port e @ ''/rss/queue''))
             \<lparr>items :=
                [\<lparr>item_title = JStr ''X - downloading'',
                  item_description =
                    ''<p><strong>Status:</strong> downloading</p>'' @ [CHR 0x0A]
                      @ ''<p><strong>Progress:</strong> 50.0%</p>'',
                  item_url = ''#'',
                  item_guid = ''queue-'' @ show_int now,
                  item_date = DateNow now,
                  item_categories = [JStr ''Queue'', JStr ''downloading'']\<rparr>]\<rparr>)),
        Inr (xml rt ((createBaseFeed rt e now ''Queue Feed'' ''Download queue status and progress''
                      (''http://localhost:'' @ port e @ ''/rss/queue''))
             \<lparr>items :=
                [\<lparr>item_title = JStr ''X - downloading'',
                  item_description =
                    ''<p><strong>Status:</strong> downloading</p>'' @ [CHR 0x0A]
                      @ ''<p><strong>Progress:</strong> 50.0%</p>'',
                  item_url = ''#'',
                  item_guid = ''queue-'' @ show_int now,
                  item_date = DateNow now,
                  item_categories = [JStr ''Queue'', JStr ''downloading'']\<rparr>]\<rparr>)))"
    by (rule generateQueueFeed_downloading)
qed

theorem queue_progress_of_numeric_sizes_witness:
  "queue_parts example_runtime queue_item_downloading =
     Inr [labelled ''Status'' ''downloading'', labelled ''Progress'' ''50.0%'']
   \<and> buildQueueDescription example_runtime queue_item_downloading =
     Inr (join_with [CHR 0x0A] [labelled ''Status'' ''downloading'', labelled ''Progress'' ''50.0%''])
   \<and> get queue_item_downloading ''size'' = Some (JNum 1073741824)
   \<and> get queue_item_downloading ''sizeleft'' = Some (JNum 536870912)
   \<and> (0::int) < 536870912 \<and> (536870912::int) \<le> 1073741824 \<and> (1073741824::int) \<le> 10 ^ 12
   \<and> (1073741824::int) \<le> 2 ^ 53 \<and> \<bar>536870912::int\<bar> \<le> 2 ^ 53
   \<and> (2000 * (1073741824 - 536870912) + 1073741824) mod (2 * 1073741824) \<noteq> (0::int)
   \<and> (\<exists>t. labelled ''Progress'' t
            \<in> set [labelled ''Status'' ''downloading'', labelled ''Progress'' ''50.0%''])
   \<and> truthy (get queue_item_downloading ''size'')
   \<and> get queue_item_downloading ''sizeleft'' \<noteq> None
   \<and> get queue_item_downloading ''sizeleft'' \<noteq> Some JNull
   \<and> labelled ''Progress'' (toFixed1 (progress_double 1073741824 536870912) @ ''%'')
       \<in> set [labelled ''Status'' ''downloading'', labelled ''Progress'' ''50.0%'']
   \<and> labelled ''Progress''
         (toFixed1 (of_int (1073741824 - 536870912) / of_int 1073741824 * 100) @ ''%'')
       \<in> set [labelled ''Status'' ''downloading'', labelled ''Progress'' ''50.0%'']"
  using queue_progress_of_numeric_sizes [of example_runtime queue_item_downloading]
    queue_parts_downloading [of example_runtime]
  by (simp add: queue_item_downloading_def)

text \<open>
  The claim as first stated fails where the exact quotient is a tie. With \<open>1997\<close> of
  \<open>2000\<close> bytes left the exact quotient is \<open>3 / 20\<close>, which rounds to \<open>0.2\<close>; the double
  that the arithmetic of the program gives lies below it, and the paragraph shows
  \<open>0.1\<close>.
\<close>

theorem queue_progress_tie_rounds_down:
  "queue_parts example_runtime
      (JObj [(''status'', JStr ''downloading''), (''size'', JNum 2000), (''sizeleft'', JNum 1997)])
     = Inr [''<p><strong>Status:</strong> downloading</p>'', ''<p><strong>Progress:</strong> 0.1%</p>'']
   \<and> buildQueueDescription example_runtime
      (JObj [(''status'', JStr ''downloading''), (''size'', JNum 2000), (''sizeleft'', JNum 1997)])
     = Inr (''<p><strong>Status:</strong> downloading</p>'' @ [CHR 0x0A]
            @ ''<p><strong>Progress:</strong> 0.1%</p>'')
   \<and> (of_int (2000 - 1997) / of_int 2000 * 100 :: rat) = 3 / 20
   \<and> toFixed1 (of_int (2000 - 1997) / of_int 2000 * 100) = ''0.2''"
  by (simp add: buildQueueDescription_def join_or_def bind_e_def queue_parts_tie labelled_def
        progress_double_tie(4))

text \<open>
  Claim C7. The builders escape \<^verbatim>\<open>overview\<close>, \<^verbatim>\<open>implementationName\<close> and
  \<^verbatim>\<open>configContract\<close>, and nothing else. A queue item whose indexer name holds
  \<open>&\<close> and \<open><\<close> has it inserted as it is, where \<open>escapeHtml\<close> would give entities; so
  has a calendar item its status and its genres. The notification builder does
  escape the implementation name it inserts.
\<close>

theorem description_text_inserted_unescaped:
  "buildQueueDescription rt (JObj [(''status'', JStr ''downloading''), (''indexer'', JStr ''R&B <HD>'')])
     = Inr (''<p><strong>Status:</strong> downloading</p>'' @ [CHR 0x0A]
            @ ''<p><strong>Indexer:</strong> R&B <HD></p>'')
   \<and> escapeHtml (Some (JStr ''R&B <HD>'')) = Inr ''R&amp;B &lt;HD&gt;''
   \<and> buildMovieDescription rt (JObj [(''status'', JStr ''<b>''), (''genres'', JArr [JStr ''R&B''])])
     = Inr (''<p><strong>Status:</strong> <b></p>'' @ [CHR 0x0A]
            @ ''<p><strong>Genres:</strong> R&B</p>'')
   \<and> buildNotificationDescription rt (JObj [(''implementationName'', JStr ''R&B <HD>'')])
     = Inr ''<p><strong>Implementation:</strong> R&amp;B &lt;HD&gt;</p>''"
  by (simp add: buildQueueDescription_def queue_parts_def buildMovieDescription_def
        buildNotificationDescription_def bind_e_def or_else_def part_if_def labelled_def
        join_or_def text_of_def escapeHtml_def replace_all_def has_elements_def opt_get_def
        join_method_def join_elems_def)

text \<open>
  Claim C9. For each kind, materializing \<^verbatim>\<open>null\<close> or the empty list throws nothing:
  it writes, under the kind's file name, the serialization of the kind's base feed,
  which has the kind's fixed title and description and no item, and returns that
  text. The serialization itself is the \<^verbatim>\<open>rss\<close> package's.
\<close>

theorem empty_payload_gives_feed_without_items:
  "generateCalendarFeed rt e now dir JNull =
     (writeFile dir ''calendar.xml'' (xml rt (createBaseFeed rt e now ''Calendar Feed''
        ''Upcoming movies from calendar'' (''http://localhost:'' @ port e @ ''/rss/calendar''))),
      Inr (xml rt (createBaseFeed rt e now ''Calendar Feed''
        ''Upcoming movies from calendar'' (''http://localhost:'' @ port e @ ''/rss/calendar''))))
   \<and> generateCalendarFeed rt e now dir (JArr []) = generateCalendarFeed rt e now dir JNull
   \<and> generateNotificationFeed rt e now dir JNull =
     (writeFile dir ''notification.xml'' (xml rt (createBaseFeed rt e now ''Notifications Feed''
        ''System notifications and alerts'' (''http://localhost:'' @ port e @ ''/rss/notification''))),
      Inr (xml rt (createBaseFeed rt e now ''Notifications Feed''
        ''System notifications and alerts'' (''http://localhost:'' @ port e @ ''/rss/notification''))))
   \<and> generateNotificationFeed rt e now dir (JArr []) = generateNotificationFeed rt e now dir JNull
   \<and> generateQueueFeed rt e now dir JNull =
     (writeFile dir ''queue.xml'' (xml rt (createBaseFeed rt e now ''Queue Feed''
        ''Download queue status and progress'' (''http://localhost:'' @ port e @ ''/rss/queue''))),
      Inr (xml rt (createBaseFeed rt e now ''Queue Feed''
        ''Download queue status and progress'' (''http://localhost:'' @ port e @ ''/rss/queue''))))
   \<and> generateQueueFeed rt e now dir (JArr []) = generateQueueFeed rt e now dir JNull
   \<and> items (createBaseFeed rt e now t d u) = []
   \<and> title (createBaseFeed rt e now t d u) = t
   \<and> description (createBaseFeed rt e now t d u) = d"
  by (simp add: generateCalendarFeed_def generateNotificationFeed_def generateQueueFeed_def
        write_feed_def feed_items_def createBaseFeed_def)

section \<open>Properties of the scheduler\<close>

subsection \<open>The steps of a refresh, spelled out\<close>

lemma cached_or_fetched_client_get:
  "cached_or_fetched e now k (\<lambda>w'. client_get up w' req) w =
     (if truthy (Some (fst (getCachedFeedData e now (db w) k)))
      then (w, Inr (fst (getCachedFeedData e now (db w) k)))
      else (case up req of
              Inl m \<Rightarrow> (w\<lparr>requests := requests w @ [req]\<rparr>, Inl (Error m))
            | Inr body \<Rightarrow>
                (w\<lparr>requests := requests w @ [req],
                   db := setCachedFeedData now (db w) k body\<rparr>, Inr body)))"
proof -
  obtain c where c: "getCachedFeedData e now (db w) k = (c, db w)"
    using getCachedFeedData_keeps_database [of e now "db w" k]
    by (cases "getCachedFeedData e now (db w) k") simp
  show ?thesis
    by (simp add: cached_or_fetched_def client_get_def c split: sum.split)
qed

lemma setCachedFeedData_same:
  "feed_cache (setCachedFeedData now d k p) k =
     Some (case feed_cache d k of
             None \<Rightarrow> \<lparr>data = p, created_at = now, updated_at = now\<rparr>
           | Some old \<Rightarrow> old\<lparr>data := p, updated_at := now\<rparr>)"
  by (simp add: setCachedFeedData_def split: option.split)

lemma setCachedFeedData_other:
  "k' \<noteq> k \<Longrightarrow> feed_cache (setCachedFeedData now d k p) k' = feed_cache d k'"
  by (simp add: setCachedFeedData_def split: option.split)

lemma setCachedFeedData_metadata:
  "feed_metadata (setCachedFeedData now d k p) = feed_metadata d"
  by (simp add: setCachedFeedData_def split: option.split)

lemma setFeedMetadata_same:
  "feed_metadata (setFeedMetadata now d k md) k =
     Some \<lparr>last_fetch = (case lastFetch md of Some t \<Rightarrow> t | None \<Rightarrow> now),
           item_count = or_else (itemCount md) (JNum 0),
           status = str_or (status_arg md) ''success'' (\<lambda>s. s),
           error_message = str_or (errorMessage md) None Some,
           meta_updated_at = now\<rparr>"
  by (simp add: setFeedMetadata_def)

lemma setFeedMetadata_other:
  "k' \<noteq> k \<Longrightarrow> feed_metadata (setFeedMetadata now d k md) k' = feed_metadata d k'"
  by (simp add: setFeedMetadata_def)

lemma setFeedMetadata_cache:
  "feed_cache (setFeedMetadata now d k md) = feed_cache d"
  by (simp add: setFeedMetadata_def)

lemma getCachedFeedData_fst_local:
  "feed_cache d k = feed_cache d' k \<Longrightarrow>
     fst (getCachedFeedData e now d k) = fst (getCachedFeedData e now d' k)"
  by (simp add: getCachedFeedData_def Let_def split: option.split)

subsection \<open>A refresh touches its own kind only, and reads its own kind only\<close>

lemma kind_view_eq_iff:
  "kind_view k w = kind_view k w' \<longleftrightarrow>
     feed_cache (db w) k = feed_cache (db w') k
     \<and> feed_metadata (db w) k = feed_metadata (db w') k
     \<and> feeds (fs w) (k @ ''.xml'') = feeds (fs w') (k @ ''.xml'')
     \<and> filter (\<lambda>name. name = k @ ''.xml'') (writes (fs w))
         = filter (\<lambda>name. name = k @ ''.xml'') (writes (fs w'))
     \<and> filter (\<lambda>req. path req = ''/'' @ k) (requests w)
         = filter (\<lambda>req. path req = ''/'' @ k) (requests w')
     \<and> lastFetchTimes w k = lastFetchTimes w' k"
  by (simp add: kind_view_def)

lemma cached_or_fetched_frame:
  assumes "k' \<noteq> k" and "path req \<noteq> ''/'' @ k'"
  shows "kind_view k' (fst (cached_or_fetched e now k (\<lambda>w'. client_get up w' req) w)) = kind_view k' w"
  using assms
  by (simp add: cached_or_fetched_client_get kind_view_eq_iff setCachedFeedData_other
        setCachedFeedData_metadata split: sum.split)

lemma cached_or_fetched_local:
  assumes "kind_view k w = kind_view k w'"
  shows "kind_view k (fst (cached_or_fetched e now k (\<lambda>w'. client_get up w' req) w))
           = kind_view k (fst (cached_or_fetched e now k (\<lambda>w'. client_get up w' req) w'))
         \<and> snd (cached_or_fetched e now k (\<lambda>w'. client_get up w' req) w)
           = snd (cached_or_fetched e now k (\<lambda>w'. client_get up w' req) w')"
proof -
  from assms have c: "feed_cache (db w) k = feed_cache (db w') k"
    by (simp add: kind_view_eq_iff)
  have g: "fst (getCachedFeedData e now (db w) k) = fst (getCachedFeedData e now (db w') k)"
    by (rule getCachedFeedData_fst_local [OF c])
  show ?thesis
    using assms
    by (simp add: cached_or_fetched_client_get g kind_view_eq_iff setCachedFeedData_same
          setCachedFeedData_metadata c split: sum.split)
qed

lemma generate_and_record_frame:
  assumes "k' \<noteq> k" and "name \<noteq> k' @ ''.xml''"
  shows "kind_view k'
           (fst (generate_and_record now k (\<lambda>dir q. write_feed rt dir name base (its q)) p count w))
         = kind_view k' w"
  using assms
  by (simp add: generate_and_record_def write_feed_def writeFile_def kind_view_eq_iff
        setFeedMetadata_other setFeedMetadata_cache split: sum.split)

lemma generate_and_record_local:
  assumes "kind_view k w = kind_view k w'"
  shows "kind_view k
           (fst (generate_and_record now k (\<lambda>dir q. write_feed rt dir (k @ ''.xml'') base (its q)) p count w))
         = kind_view k
           (fst (generate_and_record now k (\<lambda>dir q. write_feed rt dir (k @ ''.xml'') base (its q)) p count w'))
         \<and> snd (generate_and_record now k (\<lambda>dir q. write_feed rt dir (k @ ''.xml'') base (its q)) p count w)
         = snd (generate_and_record now k (\<lambda>dir q. write_feed rt dir (k @ ''.xml'') base (its q)) p count w')"
  using assms
  by (simp add: generate_and_record_def write_feed_def writeFile_def kind_view_eq_iff
        setFeedMetadata_same setFeedMetadata_cache split: sum.split)

lemma catch_error_frame:
  assumes "k' \<noteq> k"
  shows "kind_view k' (catch_error rt now k (w, r)) = kind_view k' w"
  using assms
  by (simp add: catch_error_def kind_view_eq_iff setFeedMetadata_other setFeedMetadata_cache
        split: option.split)

lemma catch_error_local:
  assumes "kind_view k w = kind_view k w'"
  shows "kind_view k (catch_error rt now k (w, r)) = kind_view k (catch_error rt now k (w', r))"
  using assms
  by (simp add: catch_error_def kind_view_eq_iff setFeedMetadata_same setFeedMetadata_cache
        split: option.split)

lemma generateCalendarFeed_eta:
  "generateCalendarFeed rt e now =
     (\<lambda>dir q. write_feed rt dir ''calendar.xml''
        (createBaseFeed rt e now ''Calendar Feed'' ''Upcoming movies from calendar''
           (''http://localhost:'' @ port e @ ''/rss/calendar''))
        (feed_items (calendar_item rt now) q))"
  by (intro ext) (simp add: generateCalendarFeed_def)

lemma generateNotificationFeed_eta:
  "generateNotificationFeed rt e now =
     (\<lambda>dir q. write_feed rt dir ''notification.xml''
        (createBaseFeed rt e now ''Notifications Feed'' ''System notifications and alerts''
           (''http://localhost:'' @ port e @ ''/rss/notification''))
        (feed_items (notification_item rt now) q))"
  by (intro ext) (simp add: generateNotificationFeed_def)

lemma generateQueueFeed_eta:
  "generateQueueFeed rt e now =
     (\<lambda>dir q. write_feed rt dir ''queue.xml''
        (createBaseFeed rt e now ''Queue Feed'' ''Download queue status and progress''
           (''http://localhost:'' @ port e @ ''/rss/queue''))
        (feed_items (queue_item rt now) q))"
  by (intro ext) (simp add: generateQueueFeed_def)

lemmas refresh_unfold =
  updateCalendarFeed_def calendar_try_def calendarData_def getCalendar_def generateCalendarFeed_eta
  updateNotificationFeed_def notification_try_def notificationData_def getNotifications_def
  generateNotificationFeed_eta
  updateQueueFeed_def queue_try_def queueData_def getQueue_def generateQueueFeed_eta

lemma refresh_shape_frame:
  assumes "k' \<noteq> k" and "path req \<noteq> ''/'' @ k'" and "name \<noteq> k' @ ''.xml''"
  shows "kind_view k' (refresh_shape rt e now up k req name base its pick count w) = kind_view k' w"
proof -
  obtain w1 r where c: "cached_or_fetched e now k (\<lambda>w'. client_get up w' req) w = (w1, r)"
    by (cases "cached_or_fetched e now k (\<lambda>w'. client_get up w' req) w")
  have f1: "kind_view k' w1 = kind_view k' w"
    using cached_or_fetched_frame [OF assms(1,2), of e now up w] c by simp
  show ?thesis
  proof (cases r)
    case (Inl err)
    then show ?thesis
      using f1 c by (simp add: catch_error_frame [OF assms(1)])
  next
    case (Inr p)
    obtain w2 r2 where g:
      "generate_and_record now k (\<lambda>dir q. write_feed rt dir name base (its q))
         (pick p) (count p) w1 = (w2, r2)"
      by (cases "generate_and_record now k (\<lambda>dir q. write_feed rt dir name base (its q))
         (pick p) (count p) w1")
    have "kind_view k' w2 = kind_view k' w1"
      using generate_and_record_frame [OF assms(1,3), of now rt base its "pick p" "count p" w1] g
      by simp
    then show ?thesis
      using f1 c Inr g by (simp add: catch_error_frame [OF assms(1)])
  qed
qed

lemma refresh_shape_local:
  assumes v: "kind_view k w = kind_view k w'" and n: "name = k @ ''.xml''"
  shows "kind_view k (refresh_shape rt e now up k req name base its pick count w)
         = kind_view k (refresh_shape rt e now up k req name base its pick count w')"
proof -
  obtain w1 r where c: "cached_or_fetched e now k (\<lambda>w'. client_get up w' req) w = (w1, r)"
    by (cases "cached_or_fetched e now k (\<lambda>w'. client_get up w' req) w")
  obtain w1' where c': "cached_or_fetched e now k (\<lambda>w'. client_get up w' req) w' = (w1', r)"
    and f1: "kind_view k w1 = kind_view k w1'"
    using cached_or_fetched_local [OF v, of e now up req] c
    by (cases "cached_or_fetched e now k (\<lambda>w'. client_get up w' req) w'") simp
  show ?thesis
  proof (cases r)
    case (Inl err)
    have "kind_view k (catch_error rt now k (w1, Some err))
            = kind_view k (catch_error rt now k (w1', Some err))"
      by (rule catch_error_local [OF f1])
    then show ?thesis
      by (simp add: c c' Inl)
  next
    case (Inr p)
    obtain w2 r2 where g:
      "generate_and_record now k (\<lambda>dir q. write_feed rt dir (k @ ''.xml'') base (its q))
         (pick p) (count p) w1 = (w2, r2)"
      by (cases "generate_and_record now k (\<lambda>dir q. write_feed rt dir (k @ ''.xml'') base (its q))
         (pick p) (count p) w1")
    obtain w2' where g':
      "generate_and_record now k (\<lambda>dir q. write_feed rt dir (k @ ''.xml'') base (its q))
         (pick p) (count p) w1' = (w2', r2)"
      and f2: "kind_view k w2 = kind_view k w2'"
      using generate_and_record_local [OF f1, of now rt base its "pick p" "count p"] g
      by (cases "generate_and_record now k (\<lambda>dir q. write_feed rt dir (k @ ''.xml'') base (its q))
         (pick p) (count p) w1'") simp
    have "kind_view k (catch_error rt now k (w2, r2)) = kind_view k (catch_error rt now k (w2', r2))"
      by (rule catch_error_local [OF f2])
    then show ?thesis
      by (simp add: c c' Inr g g' n)
  qed
qed

lemma updateCalendarFeed_frame:
  "kind_view ''notification'' (updateCalendarFeed rt e now up w) = kind_view ''notification'' w"
  "kind_view ''queue'' (updateCalendarFeed rt e now up w) = kind_view ''queue'' w"
  unfolding refresh_unfold
  by (rule refresh_shape_frame; simp)+

lemma updateNotificationFeed_frame:
  "kind_view ''calendar'' (updateNotificationFeed rt e now up w) = kind_view ''calendar'' w"
  "kind_view ''queue'' (updateNotificationFeed rt e now up w) = kind_view ''queue'' w"
  unfolding refresh_unfold
  by (rule refresh_shape_frame; simp)+

lemma updateQueueFeed_frame:
  "kind_view ''calendar'' (updateQueueFeed rt e now up w) = kind_view ''calendar'' w"
  "kind_view ''notification'' (updateQueueFeed rt e now up w) = kind_view ''notification'' w"
  unfolding refresh_unfold
  by (rule refresh_shape_frame; simp)+

lemma updateCalendarFeed_local:
  "kind_view ''calendar'' w = kind_view ''calendar'' w' \<Longrightarrow>
     kind_view ''calendar'' (updateCalendarFeed rt e now up w)
       = kind_view ''calendar'' (updateCalendarFeed rt e now up w')"
  unfolding refresh_unfold
  by (rule refresh_shape_local; simp)

lemma updateNotificationFeed_local:
  "kind_view ''notification'' w = kind_view ''notification'' w' \<Longrightarrow>
     kind_view ''notification'' (updateNotificationFeed rt e now up w)
       = kind_view ''notification'' (updateNotificationFeed rt e now up w')"
  unfolding refresh_unfold
  by (rule refresh_shape_local; simp)

lemma updateQueueFeed_local:
  "kind_view ''queue'' w = kind_view ''queue'' w' \<Longrightarrow>
     kind_view ''queue'' (updateQueueFeed rt e now up w)
       = kind_view ''queue'' (updateQueueFeed rt e now up w')"
  unfolding refresh_unfold
  by (rule refresh_shape_local; simp)

text \<open>
  Claim C4. After a cycle over all kinds, what the program keeps for each kind (its
  cache row, its status row, its file and the writes of it, the requests to its
  path, the time of its last fetch) is what the refresh of that kind alone leaves,
  whatever upstream answers for the other kinds and whatever their payloads do to
  their own refreshes.
\<close>

theorem fetchAllFeeds_kinds_independent:
  "kind_view ''calendar'' (fetchAllFeeds rt e now up w)
     = kind_view ''calendar'' (updateCalendarFeed rt e now up w)
   \<and> kind_view ''notification'' (fetchAllFeeds rt e now up w)
     = kind_view ''notification'' (updateNotificationFeed rt e now up w)
   \<and> kind_view ''queue'' (fetchAllFeeds rt e now up w)
     = kind_view ''queue'' (updateQueueFeed rt e now up w)"
proof (intro conjI)
  show "kind_view ''calendar'' (fetchAllFeeds rt e now up w)
          = kind_view ''calendar'' (updateCalendarFeed rt e now up w)"
    by (simp add: fetchAllFeeds_def updateQueueFeed_frame updateNotificationFeed_frame)
next
  have "kind_view ''notification'' (updateNotificationFeed rt e now up (updateCalendarFeed rt e now up w))
          = kind_view ''notification'' (updateNotificationFeed rt e now up w)"
    by (rule updateNotificationFeed_local) (rule updateCalendarFeed_frame)
  then show "kind_view ''notification'' (fetchAllFeeds rt e now up w)
          = kind_view ''notification'' (updateNotificationFeed rt e now up w)"
    by (simp add: fetchAllFeeds_def updateQueueFeed_frame)
next
  have "kind_view ''queue'' (updateNotificationFeed rt e now up (updateCalendarFeed rt e now up w))
          = kind_view ''queue'' w"
    by (simp add: updateNotificationFeed_frame updateCalendarFeed_frame)
  then show "kind_view ''queue'' (fetchAllFeeds rt e now up w)
          = kind_view ''queue'' (updateQueueFeed rt e now up w)"
    unfolding fetchAllFeeds_def by (rule updateQueueFeed_local)
qed

text \<open>
  The order in which the three refreshes are run does not show in what is kept for
  a kind: run in the opposite order they leave, kind by kind, what the cycle leaves.
\<close>

lemma fetchAllFeeds_order_irrelevant:
  "kind_view ''calendar''
     (updateCalendarFeed rt e now up (updateNotificationFeed rt e now up (updateQueueFeed rt e now up w)))
     = kind_view ''calendar'' (fetchAllFeeds rt e now up w)"
  "kind_view ''notification''
     (updateCalendarFeed rt e now up (updateNotificationFeed rt e now up (updateQueueFeed rt e now up w)))
     = kind_view ''notification'' (fetchAllFeeds rt e now up w)"
  "kind_view ''queue''
     (updateCalendarFeed rt e now up (updateNotificationFeed rt e now up (updateQueueFeed rt e now up w)))
     = kind_view ''queue'' (fetchAllFeeds rt e now up w)"
proof -
  have c: "kind_view ''calendar'' (updateNotificationFeed rt e now up (updateQueueFeed rt e now up w))
             = kind_view ''calendar'' w"
    by (simp add: updateNotificationFeed_frame updateQueueFeed_frame)
  show "kind_view ''calendar''
     (updateCalendarFeed rt e now up (updateNotificationFeed rt e now up (updateQueueFeed rt e now up w)))
     = kind_view ''calendar'' (fetchAllFeeds rt e now up w)"
    using updateCalendarFeed_local [OF c, of rt e now up]
    by (simp add: fetchAllFeeds_def updateQueueFeed_frame updateNotificationFeed_frame)
  have n: "kind_view ''notification'' (updateQueueFeed rt e now up w) = kind_view ''notification'' w"
    by (simp add: updateQueueFeed_frame)
  have n': "kind_view ''notification'' (updateCalendarFeed rt e now up w) = kind_view ''notification'' w"
    by (simp add: updateCalendarFeed_frame)
  show "kind_view ''notification''
     (updateCalendarFeed rt e now up (updateNotificationFeed rt e now up (updateQueueFeed rt e now up w)))
     = kind_view ''notification'' (fetchAllFeeds rt e now up w)"
    using updateNotificationFeed_local [OF n, of rt e now up]
      updateNotificationFeed_local [OF n', of rt e now up]
    by (simp add: fetchAllFeeds_def updateQueueFeed_frame updateCalendarFeed_frame)
  have q: "kind_view ''queue'' (updateNotificationFeed rt e now up (updateCalendarFeed rt e now up w))
             = kind_view ''queue'' w"
    by (simp add: updateNotificationFeed_frame updateCalendarFeed_frame)
  show "kind_view ''queue''
     (updateCalendarFeed rt e now up (updateNotificationFeed rt e now up (updateQueueFeed rt e now up w)))
     = kind_view ''queue'' (fetchAllFeeds rt e now up w)"
    using updateQueueFeed_local [OF q, of rt e now up]
    by (simp add: fetchAllFeeds_def updateNotificationFeed_frame updateCalendarFeed_frame)
qed

subsection \<open>Control state\<close>

lemma refresh_shape_control:
  "cron_tasks (refresh_shape rt e now up k req name base its pick count w) = cron_tasks w"
  "jobs (refresh_shape rt e now up k req name base its pick count w) = jobs w"
  "fetchFrequency (refresh_shape rt e now up k req name base its pick count w) = fetchFrequency w"
  by (simp_all add: cached_or_fetched_client_get generate_and_record_def write_feed_def
        catch_error_def split: sum.split option.split)

lemma fetchAllFeeds_control:
  "cron_tasks (fetchAllFeeds rt e now up w) = cron_tasks w"
  "jobs (fetchAllFeeds rt e now up w) = jobs w"
  "fetchFrequency (fetchAllFeeds rt e now up w) = fetchFrequency w"
  unfolding fetchAllFeeds_def refresh_unfold
  by (simp_all only: refresh_shape_control)

lemma start_control:
  "cron_tasks (start rt e now up w)
     = cron_tasks w @ [\<lparr>pattern = cronPattern (fetchFrequency w), running = True\<rparr>]"
  "jobs (start rt e now up w) = map_set ''rss-fetcher'' (length (cron_tasks w)) (jobs w)"
  "fetchFrequency (start rt e now up w) = fetchFrequency w"
  by (simp_all add: start_def Let_def fetchAllFeeds_control)

text \<open>
  Claim C5, evaluated on the code. \<^verbatim>\<open>start()\<close> does not look at \<^verbatim>\<open>jobs\<close>: each call
  schedules and starts a task of its own, so after two calls two more recurring
  tasks are active than before. From a fresh scheduler the second call replaces the
  entry of \<^verbatim>\<open>jobs\<close>, which then holds the second task only; \<^verbatim>\<open>stop()\<close> stops that one
  and the first keeps running, with the scheduler reporting that it is not running.
\<close>

theorem start_twice_two_active_tasks:
  "length (active_tasks (start rt e now' up' (start rt e now up w))) = length (active_tasks w) + 2
   \<and> length (active_tasks (start rt e now up (new_world e))) = 1
   \<and> active_tasks (start rt e now' up' (start rt e now up (new_world e)))
       = [\<lparr>pattern = cronPattern (parseInt_or (FETCH_FREQUENCY e) 300000), running = True\<rparr>,
          \<lparr>pattern = cronPattern (parseInt_or (FETCH_FREQUENCY e) 300000), running = True\<rparr>]
   \<and> jobs (start rt e now' up' (start rt e now up (new_world e))) = [(''rss-fetcher'', 1)]
   \<and> active_tasks (stop (start rt e now' up' (start rt e now up (new_world e))))
       = [\<lparr>pattern = cronPattern (parseInt_or (FETCH_FREQUENCY e) 300000), running = True\<rparr>]
   \<and> \<not> isRunning (stop (start rt e now' up' (start rt e now up (new_world e))))"
  by (simp add: active_tasks_def start_control new_world_def stop_def stop_task_def isRunning_def)

subsection \<open>Cache hits\<close>

lemma refresh_shape_cache_hit:
  assumes "truthy (Some (fst (getCachedFeedData e now (db w) k)))"
  shows "requests (refresh_shape rt e now up k req name base its pick count w) = requests w"
    and "fs (refresh_shape rt e now up k req name base its pick count w)
           = fst (write_feed rt (fs w) name base
                    (its (pick (fst (getCachedFeedData e now (db w) k)))))"
    and "feed_cache (db (refresh_shape rt e now up k req name base its pick count w))
           = feed_cache (db w)"
  using assms
  by (simp_all add: cached_or_fetched_client_get generate_and_record_def write_feed_def
        catch_error_def setFeedMetadata_cache split: sum.split option.split)

text \<open>
  Claim C2, as amended. For each kind, when the cache read returns a truthy payload
  (a fresh row whose payload is not \<^verbatim>\<open>null\<close>, \<^verbatim>\<open>false\<close>, \<open>0\<close> or the empty string; every
  list and every object is truthy), the refresh issues no request to upstream, leaves
  the cache as it is, and what it does to the feeds directory is what generating the
  feed from the cached payload does.
\<close>

theorem cache_hit_suppresses_request:
  "(truthy (Some (fst (getCachedFeedData e now (db w) ''calendar''))) \<longrightarrow>
      requests (updateCalendarFeed rt e now up w) = requests w
      \<and> feed_cache (db (updateCalendarFeed rt e now up w)) = feed_cache (db w)
      \<and> fs (updateCalendarFeed rt e now up w)
          = fst (generateCalendarFeed rt e now (fs w)
                   (fst (getCachedFeedData e now (db w) ''calendar''))))
   \<and> (truthy (Some (fst (getCachedFeedData e now (db w) ''notification''))) \<longrightarrow>
      requests (updateNotificationFeed rt e now up w) = requests w
      \<and> feed_cache (db (updateNotificationFeed rt e now up w)) = feed_cache (db w)
      \<and> fs (updateNotificationFeed rt e now up w)
          = fst (generateNotificationFeed rt e now (fs w)
                   (fst (getCachedFeedData e now (db w) ''notification''))))
   \<and> (truthy (Some (fst (getCachedFeedData e now (db w) ''queue''))) \<longrightarrow>
      requests (updateQueueFeed rt e now up w) = requests w
      \<and> feed_cache (db (updateQueueFeed rt e now up w)) = feed_cache (db w)
      \<and> fs (updateQueueFeed rt e now up w)
          = fst (generateQueueFeed rt e now (fs w)
                   (queue_records (fst (getCachedFeedData e now (db w) ''queue'')))))"
  unfolding refresh_unfold
  by (intro conjI impI; simp only: refresh_shape_cache_hit)

lemmas example_unfold =
  updateCalendarFeed_def calendar_try_def calendarData_def getCalendar_def generateCalendarFeed_def
  updateNotificationFeed_def notification_try_def notificationData_def getNotifications_def
  generateNotificationFeed_def
  updateQueueFeed_def queue_try_def queueData_def getQueue_def generateQueueFeed_def
  cached_or_fetched_def client_get_def getCachedFeedData_def setCachedFeedData_def
  generate_and_record_def write_feed_def feed_items_def writeFile_def catch_error_def
  setFeedMetadata_def success_metadata_def error_metadata_def message_of_def
  cacheTTL_def parseInt_or_def or_else_def str_or_def opt_get_def queue_records_def
  new_world_def example_env_def example_runtime_def upstream_empty_def upstream_down_def
  world_with_cache_def world_after_success_def five_items_def

theorem cache_hit_suppresses_request_witness:
  "truthy (Some (fst (getCachedFeedData example_env 6000 (db (world_with_cache (JArr []))) ''calendar'')))
   \<and> truthy (Some (fst (getCachedFeedData example_env 6000 (db (world_with_cache (JArr []))) ''notification'')))
   \<and> truthy (Some (fst (getCachedFeedData example_env 6000 (db (world_with_cache (JArr []))) ''queue'')))
   \<and> requests (updateCalendarFeed example_runtime example_env 6000 upstream_empty
                  (world_with_cache (JArr []))) = []
   \<and> requests (updateNotificationFeed example_runtime example_env 6000 upstream_empty
                  (world_with_cache (JArr []))) = []
   \<and> requests (updateQueueFeed example_runtime example_env 6000 upstream_empty
                  (world_with_cache (JArr []))) = []"
proof -
  have h: "truthy (Some (fst (getCachedFeedData example_env 6000 (db (world_with_cache (JArr []))) ''calendar'')))"
    "truthy (Some (fst (getCachedFeedData example_env 6000 (db (world_with_cache (JArr []))) ''notification'')))"
    "truthy (Some (fst (getCachedFeedData example_env 6000 (db (world_with_cache (JArr []))) ''queue'')))"
    by (simp_all add: world_with_cache_def getCachedFeedData_def cacheTTL_def parseInt_or_def
          example_env_def new_world_def)
  have r: "requests (world_with_cache (JArr [])) = []"
    by (simp add: world_with_cache_def new_world_def)
  show ?thesis
    using h r
      cache_hit_suppresses_request [of example_env 6000 "world_with_cache (JArr [])"
        example_runtime upstream_empty]
    by simp
qed

text \<open>
  The claim as first stated fails when the fresh row holds a falsy payload, here
  the empty string (the body of an empty 2xx response): the row is there and its
  age is below the TTL, the cache read returns the payload, and the refresh still
  requests \<^verbatim>\<open>/calendar\<close>.
\<close>

theorem fresh_falsy_payload_is_fetched_again:
  "feed_cache (db (world_with_cache (JStr []))) ''calendar''
     = Some \<lparr>data = JStr [], created_at = 5000, updated_at = 5000\<rparr>
   \<and> (6000::int) - 5000 < cacheTTL example_env
   \<and> fst (getCachedFeedData example_env 6000 (db (world_with_cache (JStr []))) ''calendar'') = JStr []
   \<and> requests (world_with_cache (JStr [])) = []
   \<and> requests (updateCalendarFeed example_runtime example_env 6000 upstream_empty
                  (world_with_cache (JStr [])))
       = [\<lparr>path = ''/calendar'',
           params = [(''end'', JStr ''2026-12-02''), (''unmonitored'', JBool False)]\<rparr>]"
  by (simp add: example_unfold createBaseFeed_def)

subsection \<open>Failures\<close>

lemma refresh_shape_fetch_failed:
  assumes "snd (cached_or_fetched e now k (\<lambda>w'. client_get up w' req) w) = Inl err"
  shows "fs (refresh_shape rt e now up k req name base its pick count w) = fs w"
    and "feed_metadata (db (refresh_shape rt e now up k req name base its pick count w)) k
           = Some \<lparr>last_fetch = now, item_count = JNum 0, status = ''error'',
                   error_message = (if message_of rt err = [] then None else Some (message_of rt err)),
                   meta_updated_at = now\<rparr>"
  using assms
  by (auto simp add: cached_or_fetched_client_get catch_error_def setFeedMetadata_same
        error_metadata_def or_else_def str_or_def split: sum.splits if_splits)

text \<open>
  Claim C3. For each kind, when the fetch step of the refresh throws (the cache read
  gave nothing to reuse and the request to upstream was rejected), the refresh leaves
  the feeds directory as it was: no file is written, so the materializer did not
  run, and the artifact read for the kind is the one from before. The status row
  of the kind then has state \<open>error\<close>, item count \<open>0\<close>, and the message of the
  failure (\<^verbatim>\<open>null\<close> when the message is empty).
\<close>

theorem fetch_failure_skips_materialization:
  "(snd (calendarData rt e now up w) = Inl err \<longrightarrow>
      fs (updateCalendarFeed rt e now up w) = fs w
      \<and> readFeed (fs (updateCalendarFeed rt e now up w)) ''calendar'' = readFeed (fs w) ''calendar''
      \<and> feed_metadata (db (updateCalendarFeed rt e now up w)) ''calendar''
          = Some \<lparr>last_fetch = now, item_count = JNum 0, status = ''error'',
                  error_message = (if message_of rt err = [] then None else Some (message_of rt err)),
                  meta_updated_at = now\<rparr>)
   \<and> (snd (notificationData e now up w) = Inl err \<longrightarrow>
      fs (updateNotificationFeed rt e now up w) = fs w
      \<and> readFeed (fs (updateNotificationFeed rt e now up w)) ''notification''
          = readFeed (fs w) ''notification''
      \<and> feed_metadata (db (updateNotificationFeed rt e now up w)) ''notification''
          = Some \<lparr>last_fetch = now, item_count = JNum 0, status = ''error'',
                  error_message = (if message_of rt err = [] then None else Some (message_of rt err)),
                  meta_updated_at = now\<rparr>)
   \<and> (snd (queueData e now up w) = Inl err \<longrightarrow>
      fs (updateQueueFeed rt e now up w) = fs w
      \<and> readFeed (fs (updateQueueFeed rt e now up w)) ''queue'' = readFeed (fs w) ''queue''
      \<and> feed_metadata (db (updateQueueFeed rt e now up w)) ''queue''
          = Some \<lparr>last_fetch = now, item_count = JNum 0, status = ''error'',
                  error_message = (if message_of rt err = [] then None else Some (message_of rt err)),
                  meta_updated_at = now\<rparr>)"
  unfolding refresh_unfold
  by (intro conjI impI; simp only: refresh_shape_fetch_failed)

theorem fetch_failure_skips_materialization_witness:
  "snd (calendarData example_runtime example_env 6000 upstream_down (new_world example_env))
     = Inl (Error ''Request failed with status code 500'')
   \<and> snd (notificationData example_env 6000 upstream_down (new_world example_env))
     = Inl (Error ''Request failed with status code 500'')
   \<and> snd (queueData example_env 6000 upstream_down (new_world example_env))
     = Inl (Error ''Request failed with status code 500'')
   \<and> writes (fs (updateCalendarFeed example_runtime example_env 6000 upstream_down
                    (new_world example_env))) = []
   \<and> map_option status
        (feed_metadata (db (updateCalendarFeed example_runtime example_env 6000 upstream_down
                              (new_world example_env))) ''calendar'') = Some ''error''
   \<and> map_option status
        (feed_metadata (db (updateNotificationFeed example_runtime example_env 6000 upstream_down
                              (new_world example_env))) ''notification'') = Some ''error''
   \<and> map_option error_message
        (feed_metadata (db (updateQueueFeed example_runtime example_env 6000 upstream_down
                              (new_world example_env))) ''queue'')
       = Some (Some ''Request failed with status code 500'')"
proof -
  have h: "snd (calendarData example_runtime example_env 6000 upstream_down (new_world example_env))
             = Inl (Error ''Request failed with status code 500'')"
    "snd (notificationData example_env 6000 upstream_down (new_world example_env))
             = Inl (Error ''Request failed with status code 500'')"
    "snd (queueData example_env 6000 upstream_down (new_world example_env))
             = Inl (Error ''Request failed with status code 500'')"
    by (simp_all add: example_unfold)
  have f: "writes (fs (new_world example_env)) = []"
    by (simp add: new_world_def)
  show ?thesis
    using h f
      fetch_failure_skips_materialization [of example_runtime example_env 6000 upstream_down
        "new_world example_env" "Error ''Request failed with status code 500''"]
    by (simp add: message_of_def)
qed

lemma catch_error_thrown:
  "feed_metadata (db (catch_error rt now k (w, Some err))) k
     = Some \<lparr>last_fetch = now, item_count = JNum 0, status = ''error'',
             error_message = (if message_of rt err = [] then None else Some (message_of rt err)),
             meta_updated_at = now\<rparr>"
  by (simp add: catch_error_def setFeedMetadata_same error_metadata_def or_else_def str_or_def)

text \<open>
  Claim C10. For each kind, when the \<^verbatim>\<open>try\<close> block of the refresh throws, whatever it
  threw and whatever the status row of the kind held before, the row afterwards has
  item count \<open>0\<close> and state \<open>error\<close>.
\<close>

theorem failed_refresh_resets_item_count:
  "(snd (calendar_try rt e now up w) = Some err \<longrightarrow>
      map_option item_count (feed_metadata (db (updateCalendarFeed rt e now up w)) ''calendar'')
        = Some (JNum 0)
      \<and> map_option status (feed_metadata (db (updateCalendarFeed rt e now up w)) ''calendar'')
        = Some ''error'')
   \<and> (snd (notification_try rt e now up w) = Some err \<longrightarrow>
      map_option item_count (feed_metadata (db (updateNotificationFeed rt e now up w)) ''notification'')
        = Some (JNum 0)
      \<and> map_option status (feed_metadata (db (updateNotificationFeed rt e now up w)) ''notification'')
        = Some ''error'')
   \<and> (snd (queue_try rt e now up w) = Some err \<longrightarrow>
      map_option item_count (feed_metadata (db (updateQueueFeed rt e now up w)) ''queue'')
        = Some (JNum 0)
      \<and> map_option status (feed_metadata (db (updateQueueFeed rt e now up w)) ''queue'')
        = Some ''error'')"
proof (intro conjI impI)
  assume a: "snd (calendar_try rt e now up w) = Some err"
  then have "calendar_try rt e now up w = (fst (calendar_try rt e now up w), Some err)"
    by (metis prod.collapse)
  then have "updateCalendarFeed rt e now up w
               = catch_error rt now ''calendar'' (fst (calendar_try rt e now up w), Some err)"
    by (simp add: updateCalendarFeed_def)
  then show
    "map_option item_count (feed_metadata (db (updateCalendarFeed rt e now up w)) ''calendar'')
       = Some (JNum 0)"
    "map_option status (feed_metadata (db (updateCalendarFeed rt e now up w)) ''calendar'')
       = Some ''error''"
    by (simp_all add: catch_error_thrown)
next
  assume a: "snd (notification_try rt e now up w) = Some err"
  then have "notification_try rt e now up w = (fst (notification_try rt e now up w), Some err)"
    by (metis prod.collapse)
  then have "updateNotificationFeed rt e now up w
               = catch_error rt now ''notification'' (fst (notification_try rt e now up w), Some err)"
    by (simp add: updateNotificationFeed_def)
  then show
    "map_option item_count (feed_metadata (db (updateNotificationFeed rt e now up w)) ''notification'')
       = Some (JNum 0)"
    "map_option status (feed_metadata (db (updateNotificationFeed rt e now up w)) ''notification'')
       = Some ''error''"
    by (simp_all add: catch_error_thrown)
next
  assume a: "snd (queue_try rt e now up w) = Some err"
  then have "queue_try rt e now up w = (fst (queue_try rt e now up w), Some err)"
    by (metis prod.collapse)
  then have "updateQueueFeed rt e now up w
               = catch_error rt now ''queue'' (fst (queue_try rt e now up w), Some err)"
    by (simp add: updateQueueFeed_def)
  then show
    "map_option item_count (feed_metadata (db (updateQueueFeed rt e now up w)) ''queue'')
       = Some (JNum 0)"
    "map_option status (feed_metadata (db (updateQueueFeed rt e now up w)) ''queue'')
       = Some ''error''"
    by (simp_all add: catch_error_thrown)
qed

theorem failed_refresh_resets_item_count_witness:
  "map_option item_count (feed_metadata (db world_after_success) ''calendar'') = Some (JNum 5)
   \<and> snd (calendar_try example_runtime example_env 6000 upstream_down world_after_success)
       = Some (Error ''Request failed with status code 500'')
   \<and> snd (notification_try example_runtime example_env 6000 upstream_down world_after_success)
       = Some (Error ''Request failed with status code 500'')
   \<and> snd (queue_try example_runtime example_env 6000 upstream_down world_after_success)
       = Some (Error ''Request failed with status code 500'')
   \<and> map_option item_count
        (feed_metadata (db (updateCalendarFeed example_runtime example_env 6000 upstream_down
                              world_after_success)) ''calendar'') = Some (JNum 0)
   \<and> map_option item_count
        (feed_metadata (db (updateNotificationFeed example_runtime example_env 6000 upstream_down
                              world_after_success)) ''notification'') = Some (JNum 0)
   \<and> map_option item_count
        (feed_metadata (db (updateQueueFeed example_runtime example_env 6000 upstream_down
                              world_after_success)) ''queue'') = Some (JNum 0)"
proof -
  have h: "snd (calendar_try example_runtime example_env 6000 upstream_down world_after_success)
             = Some (Error ''Request failed with status code 500'')"
    "snd (notification_try example_runtime example_env 6000 upstream_down world_after_success)
             = Some (Error ''Request failed with status code 500'')"
    "snd (queue_try example_runtime example_env 6000 upstream_down world_after_success)
             = Some (Error ''Request failed with status code 500'')"
    by (simp_all add: example_unfold)
  have b: "map_option item_count (feed_metadata (db world_after_success) ''calendar'') = Some (JNum 5)"
    by (simp add: world_after_success_def five_items_def)
  show ?thesis
    using h b
      failed_refresh_resets_item_count [of example_runtime example_env 6000 upstream_down
        world_after_success "Error ''Request failed with status code 500''"]
    by simp
qed

subsection \<open>A cycle with one kind failing\<close>

text \<open>
  For instance, when upstream fails the calendar requests only, the cycle leaves
  the calendar with an error status and no file, and the two other kinds with a
  success status and their files.
\<close>

lemma fetchAllFeeds_one_kind_failing:
  "map_option status
     (feed_metadata (db (fetchAllFeeds example_runtime example_env 6000 upstream_calendar_down
                           (new_world example_env))) ''calendar'') = Some ''error''
   \<and> map_option status
     (feed_metadata (db (fetchAllFeeds example_runtime example_env 6000 upstream_calendar_down
                           (new_world example_env))) ''notification'') = Some ''success''
   \<and> map_option status
     (feed_metadata (db (fetchAllFeeds example_runtime example_env 6000 upstream_calendar_down
                           (new_world example_env))) ''queue'') = Some ''success''
   \<and> writes (fs (fetchAllFeeds example_runtime example_env 6000 upstream_calendar_down
                    (new_world example_env))) = [''notification.xml'', ''queue.xml'']"
  by (simp add: fetchAllFeeds_def example_unfold upstream_calendar_down_def createBaseFeed_def)

end
